theory Spec2Isabelle
  imports Complex_Main
begin

section \<open>PageRank iteration loops and drivers (pagerankBasic.hxx)\<close>

text \<open>
  The header \<^verbatim>\<open>pagerankBasic.hxx\<close> holds two convergence loops
  (\<^verbatim>\<open>pagerankBasicSeqLoop\<close>, \<^verbatim>\<open>pagerankBasicOmpLoop\<close>) and four drivers.
  Everything they call lives in other headers (\<^verbatim>\<open>pagerank.hxx\<close>, \<^verbatim>\<open>vertices.hxx\<close>,
  \<^verbatim>\<open>_main.hxx\<close>); those callees are taken as parameters, collected in records of
  functions, so that every theorem holds for whatever they compute.

  Template parameters: \<open>K\<close> (vertex key and dense position) is \<open>nat\<close> where the
  header only passes such a value on, and where a driver converts the order of a
  graph to \<open>K\<close> the wrap-around of the fixed-width type is written out; \<open>V\<close> (rank
  value, a floating-point type in the program) is a type variable \<open>'v\<close> of which only
  the operations the header itself applies are required (\<open>1\<close>, \<open>-\<close>, \<open>/\<close>, \<open><\<close>), with
  no law assumed about them; \<open>ASYNC\<close> and \<open>DEAD\<close> are booleans.
\<close>

subsection \<open>Data\<close>

text \<open>
  \<^verbatim>\<open>ThreadInfo\<close>: the header reads the field \<^verbatim>\<open>crashed\<close> only. The record is
  used through its extensible scheme, so a worker may carry any further state (its
  random engine, its iteration counter) that the per-vertex callback updates.
\<close>

record ThreadInfo =
  crashed :: bool

text \<open>\<^verbatim>\<open>fv\<close>: per vertex processing \<^verbatim>\<open>(thread, vertex)\<close>, called for its effect on the thread.\<close>

type_synonym 't FV = "'t ThreadInfo_scheme \<Rightarrow> nat \<Rightarrow> 't ThreadInfo_scheme"

text \<open>\<^verbatim>\<open>fa\<close>: is vertex affected? \<^verbatim>\<open>(vertex)\<close>.\<close>

type_synonym FA = "nat \<Rightarrow> bool"

text \<open>
  The loops receive \<^verbatim>\<open>a\<close>, \<^verbatim>\<open>r\<close>, \<^verbatim>\<open>c\<close> and \<^verbatim>\<open>threads\<close> by reference and update them.
  \<^verbatim>\<open>a\<close> and \<^verbatim>\<open>r\<close> may be one and the same vector object, so they are addresses
  (\<open>pa\<close>, \<open>pr\<close>) into a store \<open>mem\<close> of vectors: a write through \<open>pa\<close> is seen through
  \<open>pr\<close> exactly when \<open>pa = pr\<close>. The contribution vector \<^verbatim>\<open>c\<close> is taken to be
  an object of its own (\<open>cbuf\<close>), as are the vectors passed by const reference;
  \<open>thr\<close> are the workers \<^verbatim>\<open>threads\<close> points to.
\<close>

record ('v, 't) LoopState =
  mem :: "nat \<Rightarrow> 'v list"
  cbuf :: "'v list"
  thr :: "'t ThreadInfo_scheme list"

text \<open>\<^verbatim>\<open>threads[0]\<close> on an empty vector has no defined behaviour; the model makes it an error.\<close>

datatype error = ThreadIndexOutOfRange

text \<open>
  The callees of the loops, with the arguments in the order of each call. A callee that
  writes its first argument (\<^verbatim>\<open>pagerankCalculateRanks\<close> writes \<^verbatim>\<open>a\<close> and, through
  \<^verbatim>\<open>fv\<close>, the thread; \<^verbatim>\<open>multiplyValuesW\<close> writes \<^verbatim>\<open>c\<close>) returns the new value.
  \<open>toV\<close> is the arithmetic conversion of \<^verbatim>\<open>N\<close> to \<^verbatim>\<open>V\<close> in \<^verbatim>\<open>(1-P)/N\<close>.
\<close>

record ('v, 't) LoopCallees =
  toV :: "nat \<Rightarrow> 'v"
  pagerankTeleport :: "'v list \<Rightarrow> nat list \<Rightarrow> 'v \<Rightarrow> nat \<Rightarrow> 'v"
  pagerankCalculateRanks ::
    "'v list \<Rightarrow> 'v list \<Rightarrow> nat list \<Rightarrow> nat list \<Rightarrow> 'v \<Rightarrow> nat \<Rightarrow> nat \<Rightarrow>
     't ThreadInfo_scheme \<Rightarrow> 't FV \<Rightarrow> FA \<Rightarrow> 'v list \<times> 't ThreadInfo_scheme"
  multiplyValuesW :: "'v list \<Rightarrow> 'v list \<Rightarrow> 'v list \<Rightarrow> nat \<Rightarrow> nat \<Rightarrow> 'v list"
  pagerankError :: "'v list \<Rightarrow> 'v list \<Rightarrow> int \<Rightarrow> nat \<Rightarrow> nat \<Rightarrow> 'v"
  pagerankTeleportOmp :: "'v list \<Rightarrow> nat list \<Rightarrow> 'v \<Rightarrow> nat \<Rightarrow> 'v"
  pagerankCalculateRanksOmp ::
    "'v list \<Rightarrow> 'v list \<Rightarrow> nat list \<Rightarrow> nat list \<Rightarrow> 'v \<Rightarrow> nat \<Rightarrow> nat \<Rightarrow>
     't ThreadInfo_scheme list \<Rightarrow> 't FV \<Rightarrow> FA \<Rightarrow> 'v list \<times> 't ThreadInfo_scheme list"
  multiplyValuesOmpW :: "'v list \<Rightarrow> 'v list \<Rightarrow> 'v list \<Rightarrow> nat \<Rightarrow> nat \<Rightarrow> 'v list"
  pagerankErrorOmp :: "'v list \<Rightarrow> 'v list \<Rightarrow> int \<Rightarrow> nat \<Rightarrow> nat \<Rightarrow> 'v"

subsection \<open>The single-worker loop\<close>

text \<open>
  Line 45: \<^verbatim>\<open>V C0 = DEAD? pagerankTeleport(r, vdeg, P, N) : (1-P)/N\<close>.
\<close>

definition pagerankBasicSeqC0 ::
  "bool \<Rightarrow> ('v::{one,minus,inverse,ord}, 't) LoopCallees \<Rightarrow> 'v list \<Rightarrow> nat list \<Rightarrow> 'v \<Rightarrow> nat \<Rightarrow> 'v" where
  "pagerankBasicSeqC0 DEAD cs r vdeg P N =
     (if DEAD then pagerankTeleport cs r vdeg P N else (1 - P) / toV cs N)"

text \<open>
  One pass through the loop body (lines 45 to 49 of the header): the constant \<^verbatim>\<open>C0\<close>,
  the rank update on \<^verbatim>\<open>threads[0]\<close>, the contributions, the error \<^verbatim>\<open>el\<close>, and the
  swap of \<^verbatim>\<open>a\<close> and \<^verbatim>\<open>r\<close> unless \<^verbatim>\<open>ASYNC\<close>. It returns the new state and \<^verbatim>\<open>el\<close>.
\<close>

definition pagerankBasicSeqBody ::
  "bool \<Rightarrow> bool \<Rightarrow> ('v::{one,minus,inverse,ord}, 't) LoopCallees \<Rightarrow> nat \<Rightarrow> nat \<Rightarrow>
   'v list \<Rightarrow> nat list \<Rightarrow> nat list \<Rightarrow> nat list \<Rightarrow> nat \<Rightarrow> 'v \<Rightarrow> int \<Rightarrow> nat \<Rightarrow> nat \<Rightarrow>
   't FV \<Rightarrow> FA \<Rightarrow> ('v, 't) LoopState \<Rightarrow> error + (('v, 't) LoopState \<times> 'v)" where
  "pagerankBasicSeqBody ASYNC DEAD cs pa pr f xv xe vdeg N P EF i n fv fa s =
     (case thr s of
        [] \<Rightarrow> Inl ThreadIndexOutOfRange
      | t0 # ts \<Rightarrow>
          let C0 = pagerankBasicSeqC0 DEAD cs (mem s pr) vdeg P N;
              (a1, t1) = pagerankCalculateRanks cs (mem s pa) (cbuf s) xv xe C0 i n t0 fv fa;
              m1 = (mem s)(pa := a1);
              c1 = multiplyValuesW cs (cbuf s) (m1 pa) f i n;
              el = pagerankError cs (m1 pa) (m1 pr) EF i n;
              m2 = (if \<not> ASYNC then m1(pa := m1 pr, pr := m1 pa) else m1)
          in Inr (\<lparr>mem = m2, cbuf = c1, thr = t1 # ts\<rparr>, el))"

text \<open>
  The \<^verbatim>\<open>while (l<L)\<close> loop from a given count \<open>l\<close>: after the body (which has
  incremented \<^verbatim>\<open>l\<close>) it breaks on \<^verbatim>\<open>el<E\<close>, then on \<^verbatim>\<open>threads[0]->crashed\<close>.
  \<^verbatim>\<open>l\<close> and \<^verbatim>\<open>L\<close> are C++ \<^verbatim>\<open>int\<close>; \<^verbatim>\<open>++l\<close> runs only under \<^verbatim>\<open>l<L\<close>, so it cannot overflow.
\<close>

function pagerankBasicSeqWhile ::
  "bool \<Rightarrow> bool \<Rightarrow> ('v::{one,minus,inverse,ord}, 't) LoopCallees \<Rightarrow> nat \<Rightarrow> nat \<Rightarrow>
   'v list \<Rightarrow> nat list \<Rightarrow> nat list \<Rightarrow> nat list \<Rightarrow> nat \<Rightarrow> 'v \<Rightarrow> 'v \<Rightarrow> int \<Rightarrow> int \<Rightarrow> nat \<Rightarrow> nat \<Rightarrow>
   't FV \<Rightarrow> FA \<Rightarrow> int \<Rightarrow> ('v, 't) LoopState \<Rightarrow> error + (int \<times> ('v, 't) LoopState)" where
  "pagerankBasicSeqWhile ASYNC DEAD cs pa pr f xv xe vdeg N P E L EF i n fv fa l s =
     (if l < L then
        (case pagerankBasicSeqBody ASYNC DEAD cs pa pr f xv xe vdeg N P EF i n fv fa s of
           Inl err \<Rightarrow> Inl err
         | Inr (s1, el) \<Rightarrow>
             if el < E then Inr (l + 1, s1)
             else if crashed (hd (thr s1)) then Inr (l + 1, s1)
             else pagerankBasicSeqWhile ASYNC DEAD cs pa pr f xv xe vdeg N P E L EF i n fv fa (l + 1) s1)
      else Inr (l, s))"
  by pat_completeness auto
termination
  by (relation "measure (\<lambda>(ASYNC, DEAD, cs, pa, pr, f, xv, xe, vdeg, N, P, E, L, EF, i, n, fv, fa, l, s). nat (L - l))") auto

text \<open>
  \<^verbatim>\<open>pagerankBasicSeqLoop\<close>: \<^verbatim>\<open>int l = 0\<close>, the loop, \<^verbatim>\<open>return l\<close>; the final state is
  returned with it. The arguments follow the header's order: \<^verbatim>\<open>a\<close> and \<^verbatim>\<open>r\<close> are the
  addresses \<open>pa\<close> and \<open>pr\<close>; \<^verbatim>\<open>c\<close> and \<^verbatim>\<open>threads\<close> are in the state \<open>s\<close>; the
  parameter \<^verbatim>\<open>e\<close>, which the body never touches, is left out.
\<close>

definition pagerankBasicSeqLoop ::
  "bool \<Rightarrow> bool \<Rightarrow> ('v::{one,minus,inverse,ord}, 't) LoopCallees \<Rightarrow> nat \<Rightarrow> nat \<Rightarrow>
   'v list \<Rightarrow> nat list \<Rightarrow> nat list \<Rightarrow> nat list \<Rightarrow> nat \<Rightarrow> 'v \<Rightarrow> 'v \<Rightarrow> int \<Rightarrow> int \<Rightarrow> nat \<Rightarrow> nat \<Rightarrow>
   't FV \<Rightarrow> FA \<Rightarrow> ('v, 't) LoopState \<Rightarrow> error + (int \<times> ('v, 't) LoopState)" where
  "pagerankBasicSeqLoop ASYNC DEAD cs pa pr f xv xe vdeg N P E L EF i n fv fa s =
     pagerankBasicSeqWhile ASYNC DEAD cs pa pr f xv xe vdeg N P E L EF i n fv fa 0 s"

declare pagerankBasicSeqWhile.simps [simp del]

subsection \<open>The multi-worker loop\<close>

text \<open>
  Modelled from the spec: \<^verbatim>\<open>threadInfosCrashedCount\<close> is not in this header; the
  multi-worker loop stops "if any worker's failure flag is set", so the count is the
  number of workers whose \<^verbatim>\<open>crashed\<close> flag is set.
\<close>

definition threadInfosCrashedCount :: "'t ThreadInfo_scheme list \<Rightarrow> int" where
  "threadInfosCrashedCount threads = int (length (filter crashed threads))"

text \<open>
  Line 62: \<^verbatim>\<open>V C0 = DEAD? pagerankTeleportOmp(r, vdeg, P, N) : (1-P)/N\<close>.
\<close>

definition pagerankBasicOmpC0 ::
  "bool \<Rightarrow> ('v::{one,minus,inverse,ord}, 't) LoopCallees \<Rightarrow> 'v list \<Rightarrow> nat list \<Rightarrow> 'v \<Rightarrow> nat \<Rightarrow> 'v" where
  "pagerankBasicOmpC0 DEAD cs r vdeg P N =
     (if DEAD then pagerankTeleportOmp cs r vdeg P N else (1 - P) / toV cs N)"

text \<open>
  The body of \<^verbatim>\<open>pagerankBasicOmpLoop\<close> (lines 62 to 66). The parallel callees
  return after their own join, so the body is a sequence of calls; the rank update
  receives all of \<^verbatim>\<open>threads\<close>.
\<close>

definition pagerankBasicOmpBody ::
  "bool \<Rightarrow> bool \<Rightarrow> ('v::{one,minus,inverse,ord}, 't) LoopCallees \<Rightarrow> nat \<Rightarrow> nat \<Rightarrow>
   'v list \<Rightarrow> nat list \<Rightarrow> nat list \<Rightarrow> nat list \<Rightarrow> nat \<Rightarrow> 'v \<Rightarrow> int \<Rightarrow> nat \<Rightarrow> nat \<Rightarrow>
   't FV \<Rightarrow> FA \<Rightarrow> ('v, 't) LoopState \<Rightarrow> ('v, 't) LoopState \<times> 'v" where
  "pagerankBasicOmpBody ASYNC DEAD cs pa pr f xv xe vdeg N P EF i n fv fa s =
     (let C0 = pagerankBasicOmpC0 DEAD cs (mem s pr) vdeg P N;
          (a1, ts1) = pagerankCalculateRanksOmp cs (mem s pa) (cbuf s) xv xe C0 i n (thr s) fv fa;
          m1 = (mem s)(pa := a1);
          c1 = multiplyValuesOmpW cs (cbuf s) (m1 pa) f i n;
          el = pagerankErrorOmp cs (m1 pa) (m1 pr) EF i n;
          m2 = (if \<not> ASYNC then m1(pa := m1 pr, pr := m1 pa) else m1)
      in (\<lparr>mem = m2, cbuf = c1, thr = ts1\<rparr>, el))"

function pagerankBasicOmpWhile ::
  "bool \<Rightarrow> bool \<Rightarrow> ('v::{one,minus,inverse,ord}, 't) LoopCallees \<Rightarrow> nat \<Rightarrow> nat \<Rightarrow>
   'v list \<Rightarrow> nat list \<Rightarrow> nat list \<Rightarrow> nat list \<Rightarrow> nat \<Rightarrow> 'v \<Rightarrow> 'v \<Rightarrow> int \<Rightarrow> int \<Rightarrow> nat \<Rightarrow> nat \<Rightarrow>
   't FV \<Rightarrow> FA \<Rightarrow> int \<Rightarrow> ('v, 't) LoopState \<Rightarrow> int \<times> ('v, 't) LoopState" where
  "pagerankBasicOmpWhile ASYNC DEAD cs pa pr f xv xe vdeg N P E L EF i n fv fa l s =
     (if l < L then
        (case pagerankBasicOmpBody ASYNC DEAD cs pa pr f xv xe vdeg N P EF i n fv fa s of
           (s1, el) \<Rightarrow>
             if el < E then (l + 1, s1)
             else if threadInfosCrashedCount (thr s1) > 0 then (l + 1, s1)
             else pagerankBasicOmpWhile ASYNC DEAD cs pa pr f xv xe vdeg N P E L EF i n fv fa (l + 1) s1)
      else (l, s))"
  by pat_completeness auto
termination
  by (relation "measure (\<lambda>(ASYNC, DEAD, cs, pa, pr, f, xv, xe, vdeg, N, P, E, L, EF, i, n, fv, fa, l, s). nat (L - l))") auto

declare pagerankBasicOmpWhile.simps [simp del]

definition pagerankBasicOmpLoop ::
  "bool \<Rightarrow> bool \<Rightarrow> ('v::{one,minus,inverse,ord}, 't) LoopCallees \<Rightarrow> nat \<Rightarrow> nat \<Rightarrow>
   'v list \<Rightarrow> nat list \<Rightarrow> nat list \<Rightarrow> nat list \<Rightarrow> nat \<Rightarrow> 'v \<Rightarrow> 'v \<Rightarrow> int \<Rightarrow> int \<Rightarrow> nat \<Rightarrow> nat \<Rightarrow>
   't FV \<Rightarrow> FA \<Rightarrow> ('v, 't) LoopState \<Rightarrow> int \<times> ('v, 't) LoopState" where
  "pagerankBasicOmpLoop ASYNC DEAD cs pa pr f xv xe vdeg N P E L EF i n fv fa s =
     pagerankBasicOmpWhile ASYNC DEAD cs pa pr f xv xe vdeg N P E L EF i n fv fa 0 s"

subsection \<open>Whole passes of the loop bodies\<close>

text \<open>
  \<open>pagerankBasicSeqRun k s\<close> is the state after \<open>k\<close> whole passes of the single-worker
  body from \<open>s\<close>, with no stop test in between: iteration \<open>k + 1\<close> of a run that
  reaches it starts in this state. \<open>pagerankBasicOmpRun\<close> is the same for the
  multi-worker body.
\<close>

fun pagerankBasicSeqRun ::
  "bool \<Rightarrow> bool \<Rightarrow> ('v::{one,minus,inverse,ord}, 't) LoopCallees \<Rightarrow> nat \<Rightarrow> nat \<Rightarrow>
   'v list \<Rightarrow> nat list \<Rightarrow> nat list \<Rightarrow> nat list \<Rightarrow> nat \<Rightarrow> 'v \<Rightarrow> int \<Rightarrow> nat \<Rightarrow> nat \<Rightarrow>
   't FV \<Rightarrow> FA \<Rightarrow> nat \<Rightarrow> ('v, 't) LoopState \<Rightarrow> error + ('v, 't) LoopState" where
  "pagerankBasicSeqRun ASYNC DEAD cs pa pr f xv xe vdeg N P EF i n fv fa 0 s = Inr s"
| "pagerankBasicSeqRun ASYNC DEAD cs pa pr f xv xe vdeg N P EF i n fv fa (Suc k) s =
     (case pagerankBasicSeqBody ASYNC DEAD cs pa pr f xv xe vdeg N P EF i n fv fa s of
        Inl err \<Rightarrow> Inl err
      | Inr (s1, el) \<Rightarrow> pagerankBasicSeqRun ASYNC DEAD cs pa pr f xv xe vdeg N P EF i n fv fa k s1)"

fun pagerankBasicOmpRun ::
  "bool \<Rightarrow> bool \<Rightarrow> ('v::{one,minus,inverse,ord}, 't) LoopCallees \<Rightarrow> nat \<Rightarrow> nat \<Rightarrow>
   'v list \<Rightarrow> nat list \<Rightarrow> nat list \<Rightarrow> nat list \<Rightarrow> nat \<Rightarrow> 'v \<Rightarrow> int \<Rightarrow> nat \<Rightarrow> nat \<Rightarrow>
   't FV \<Rightarrow> FA \<Rightarrow> nat \<Rightarrow> ('v, 't) LoopState \<Rightarrow> ('v, 't) LoopState" where
  "pagerankBasicOmpRun ASYNC DEAD cs pa pr f xv xe vdeg N P EF i n fv fa 0 s = s"
| "pagerankBasicOmpRun ASYNC DEAD cs pa pr f xv xe vdeg N P EF i n fv fa (Suc k) s =
     pagerankBasicOmpRun ASYNC DEAD cs pa pr f xv xe vdeg N P EF i n fv fa k
       (fst (pagerankBasicOmpBody ASYNC DEAD cs pa pr f xv xe vdeg N P EF i n fv fa s))"

subsection \<open>The drivers\<close>

text \<open>
  Modelled from the spec: \<^verbatim>\<open>PagerankResult\<close> is declared outside this header. The
  run result is the "final rank per vertex (by key)" and the "iterations actually
  performed" (the elapsed time an implementation may add is left out);
  \<^verbatim>\<open>return {}\<close> is the value-initialised result: no rank, zero iterations.
\<close>

record 'v PagerankResult =
  ranks :: "'v list"
  iterations :: int

definition PagerankResult_empty :: "'v PagerankResult" where
  "PagerankResult_empty = \<lparr>ranks = [], iterations = 0\<rparr>"

text \<open>The loop handed to \<^verbatim>\<open>pagerankSeq\<close> and to \<^verbatim>\<open>pagerankOmp\<close> (their parameter \<^verbatim>\<open>fl\<close>).\<close>

type_synonym ('v, 't) FLSeq =
  "nat \<Rightarrow> nat \<Rightarrow> 'v list \<Rightarrow> nat list \<Rightarrow> nat list \<Rightarrow> nat list \<Rightarrow> nat \<Rightarrow> 'v \<Rightarrow> 'v \<Rightarrow> int \<Rightarrow> int \<Rightarrow>
   nat \<Rightarrow> nat \<Rightarrow> 't FV \<Rightarrow> FA \<Rightarrow> ('v, 't) LoopState \<Rightarrow> error + (int \<times> ('v, 't) LoopState)"

type_synonym ('v, 't) FLOmp =
  "nat \<Rightarrow> nat \<Rightarrow> 'v list \<Rightarrow> nat list \<Rightarrow> nat list \<Rightarrow> nat list \<Rightarrow> nat \<Rightarrow> 'v \<Rightarrow> 'v \<Rightarrow> int \<Rightarrow> int \<Rightarrow>
   nat \<Rightarrow> nat \<Rightarrow> 't FV \<Rightarrow> FA \<Rightarrow> ('v, 't) LoopState \<Rightarrow> int \<times> ('v, 't) LoopState"

text \<open>
  The callees of the drivers. \<open>'g\<close> is the graph type \<^verbatim>\<open>G\<close>, \<open>'h\<close> the transpose type
  \<^verbatim>\<open>H\<close>, \<open>'o\<close> the options \<^verbatim>\<open>PagerankOptions<V>\<close>, \<open>'f\<close> whatever
  \<^verbatim>\<open>pagerankAffectedVerticesTraversal\<close> returns. \<open>order h\<close> is \<^verbatim>\<open>h.order()\<close>, the
  number of vertices; \<open>keyBits\<close> is the width in bits of the key type \<^verbatim>\<open>K\<close>
  (\<^verbatim>\<open>H::key_type\<close>), an unsigned integer type.
  \<^verbatim>\<open>pagerankSeq<ASYNC>\<close> and \<^verbatim>\<open>pagerankOmp<ASYNC>\<close> take the template flag first.
  \<^verbatim>\<open>q\<close>, a pointer that may be null, is an option.
\<close>

record ('g, 'h, 'o, 'f, 'v, 't) DriverCallees =
  keyBits :: nat
  order :: "'h \<Rightarrow> nat"
  vertexKeys :: "'h \<Rightarrow> nat list"
  pagerankAffectedVerticesTraversal :: "'g \<Rightarrow> (nat \<times> nat) list \<Rightarrow> (nat \<times> nat) list \<Rightarrow> 'f"
  compressContainer :: "'g \<Rightarrow> 'f \<Rightarrow> nat list \<Rightarrow> bool list"
  pagerankSeq ::
    "bool \<Rightarrow> 'h \<Rightarrow> 'v list option \<Rightarrow> 'o \<Rightarrow> nat list \<Rightarrow> nat \<Rightarrow> nat \<Rightarrow> ('v, 't) FLSeq \<Rightarrow>
     't FV \<Rightarrow> FA \<Rightarrow> error + 'v PagerankResult"
  pagerankOmp ::
    "bool \<Rightarrow> 'h \<Rightarrow> 'v list option \<Rightarrow> 'o \<Rightarrow> nat list \<Rightarrow> nat \<Rightarrow> nat \<Rightarrow> ('v, 't) FLOmp \<Rightarrow>
     't FV \<Rightarrow> FA \<Rightarrow> 'v PagerankResult"

text \<open>
  Every driver starts with \<^verbatim>\<open>K N = xt.order()\<close> (\<^verbatim>\<open>yt.order()\<close> in the dynamic
  ones): the order is converted to the key type before \<^verbatim>\<open>N==0\<close> is tested and
  before \<^verbatim>\<open>N\<close> is handed on. \<open>toK w x\<close> is that conversion to an unsigned type of
  \<open>w\<close> bits: \<open>x\<close> modulo \<open>2 ^ w\<close>.
\<close>

definition toK :: "nat \<Rightarrow> nat \<Rightarrow> nat" where
  "toK w x = x mod 2 ^ w"

text \<open>\<^verbatim>\<open>pagerankBasicSeq\<close> (lines 89 to 95).\<close>

definition pagerankBasicSeq ::
  "bool \<Rightarrow> bool \<Rightarrow> ('g, 'h, 'o, 'f, 'v::{one,minus,inverse,ord}, 't) DriverCallees \<Rightarrow>
   ('v, 't) LoopCallees \<Rightarrow> 'h \<Rightarrow> 'v list option \<Rightarrow> 'o \<Rightarrow> 't FV \<Rightarrow> error + 'v PagerankResult" where
  "pagerankBasicSeq ASYNC DEAD ds cs xt q opts fv =
     (let N = toK (keyBits ds) (order ds xt) in
      if N = 0 then Inr PagerankResult_empty
      else
        let ks = vertexKeys ds xt;
            fa = (\<lambda>u. True)
        in pagerankSeq ds ASYNC xt q opts ks 0 N (pagerankBasicSeqLoop ASYNC DEAD cs) fv fa)"

text \<open>\<^verbatim>\<open>pagerankBasicOmp\<close> (lines 100 to 106).\<close>

definition pagerankBasicOmp ::
  "bool \<Rightarrow> bool \<Rightarrow> ('g, 'h, 'o, 'f, 'v::{one,minus,inverse,ord}, 't) DriverCallees \<Rightarrow>
   ('v, 't) LoopCallees \<Rightarrow> 'h \<Rightarrow> 'v list option \<Rightarrow> 'o \<Rightarrow> 't FV \<Rightarrow> 'v PagerankResult" where
  "pagerankBasicOmp ASYNC DEAD ds cs xt q opts fv =
     (let N = toK (keyBits ds) (order ds xt) in
      if N = 0 then PagerankResult_empty
      else
        let ks = vertexKeys ds xt;
            fa = (\<lambda>u. True)
        in pagerankOmp ds ASYNC xt q opts ks 0 N (pagerankBasicOmpLoop ASYNC DEAD cs) fv fa)"

text \<open>
  \<^verbatim>\<open>pagerankBasicDynamicTraversalSeq\<close> (lines 129 to 135). The parameter \<^verbatim>\<open>xt\<close> is
  not used by the body. \<^verbatim>\<open>vaff[u]\<close> is a read of the vector; beyond its size the
  program has no defined behaviour and \<open>vaff ! u\<close> no specified value.
\<close>

definition pagerankBasicDynamicTraversalSeq ::
  "bool \<Rightarrow> bool \<Rightarrow> ('g, 'h, 'o, 'f, 'v::{one,minus,inverse,ord}, 't) DriverCallees \<Rightarrow>
   ('v, 't) LoopCallees \<Rightarrow> 'g \<Rightarrow> 'h \<Rightarrow> 'g \<Rightarrow> 'h \<Rightarrow> (nat \<times> nat) list \<Rightarrow> (nat \<times> nat) list \<Rightarrow>
   'v list option \<Rightarrow> 'o \<Rightarrow> 't FV \<Rightarrow> error + 'v PagerankResult" where
  "pagerankBasicDynamicTraversalSeq ASYNC DEAD ds cs x xt y yt deletions insertions q opts fv =
     (let N = toK (keyBits ds) (order ds yt) in
      if N = 0 then Inr PagerankResult_empty
      else
        let ks = vertexKeys ds yt;
            vaff = compressContainer ds y
                     (pagerankAffectedVerticesTraversal ds x deletions insertions) ks;
            fa = (\<lambda>u. vaff ! u = True)
        in pagerankSeq ds ASYNC yt q opts ks 0 N (pagerankBasicSeqLoop ASYNC DEAD cs) fv fa)"

text \<open>\<^verbatim>\<open>pagerankBasicDynamicTraversalOmp\<close> (lines 140 to 146).\<close>

definition pagerankBasicDynamicTraversalOmp ::
  "bool \<Rightarrow> bool \<Rightarrow> ('g, 'h, 'o, 'f, 'v::{one,minus,inverse,ord}, 't) DriverCallees \<Rightarrow>
   ('v, 't) LoopCallees \<Rightarrow> 'g \<Rightarrow> 'h \<Rightarrow> 'g \<Rightarrow> 'h \<Rightarrow> (nat \<times> nat) list \<Rightarrow> (nat \<times> nat) list \<Rightarrow>
   'v list option \<Rightarrow> 'o \<Rightarrow> 't FV \<Rightarrow> 'v PagerankResult" where
  "pagerankBasicDynamicTraversalOmp ASYNC DEAD ds cs x xt y yt deletions insertions q opts fv =
     (let N = toK (keyBits ds) (order ds yt) in
      if N = 0 then PagerankResult_empty
      else
        let ks = vertexKeys ds yt;
            vaff = compressContainer ds y
                     (pagerankAffectedVerticesTraversal ds x deletions insertions) ks;
            fa = (\<lambda>u. vaff ! u = True)
        in pagerankOmp ds ASYNC yt q opts ks 0 N (pagerankBasicOmpLoop ASYNC DEAD cs) fv fa)"

subsection \<open>The run around the loop, from the specification\<close>

text \<open>
  \<^verbatim>\<open>pagerankSeq\<close> and \<^verbatim>\<open>pagerankOmp\<close> are defined in \<^verbatim>\<open>pagerank.hxx\<close>, which is
  not among the sources. Where a property of a driver needs more than the call it
  makes, they are modelled from the specification. \<open>LoopArgs\<close> is what such a run
  hands to the loop besides the range, the callback, the predicate and the workers:
  the addresses of \<^verbatim>\<open>a\<close> and \<^verbatim>\<open>r\<close>, the vectors behind them, \<^verbatim>\<open>c\<close>, the scale
  \<^verbatim>\<open>f\<close>, the edge arrays, the out-degrees and the run configuration.
\<close>

record 'v LoopArgs =
  arg_a :: nat
  arg_r :: nat
  arg_mem :: "nat \<Rightarrow> 'v list"
  arg_c :: "'v list"
  arg_f :: "'v list"
  arg_xv :: "nat list"
  arg_xe :: "nat list"
  arg_vdeg :: "nat list"
  arg_N :: nat
  arg_P :: 'v
  arg_E :: 'v
  arg_L :: int
  arg_EF :: int

text \<open>
  What the specification leaves open in such a run: how the buffers and the
  configuration are built from the graph, the optional initial ranks and the options
  (\<open>prepare\<close>), the fresh worker descriptors (\<open>worker\<close> for the single-worker run,
  \<open>workers\<close> for the pool), and how the final ranks are returned by key (\<open>collect\<close>).
\<close>

record ('h, 'o, 'v, 't) RunCallees =
  prepare :: "bool \<Rightarrow> 'h \<Rightarrow> 'v list option \<Rightarrow> 'o \<Rightarrow> nat list \<Rightarrow> 'v LoopArgs"
  worker :: "'t ThreadInfo_scheme"
  workers :: "'t ThreadInfo_scheme list"
  collect :: "'h \<Rightarrow> 'v list \<Rightarrow> nat list \<Rightarrow> 'v list"

text \<open>
  Modelled from the spec: \<^verbatim>\<open>pagerankSeq\<close> (in \<^verbatim>\<open>pagerank.hxx\<close>) is missing. By the
  specification a driver wires the graph to the loop: the buffers and the key to
  position mapping are established once per run, one worker descriptor is created
  fresh (\<^verbatim>\<open>workers[1]\<close>), the loop is invoked over the given range with the given
  predicate, and the caller receives the final rank per vertex and the iterations
  performed. The final ranks are read from \<^verbatim>\<open>r\<close> ("final ranks in (r)", line 49).
\<close>

definition pagerankSeqSpec ::
  "('h, 'o, 'v, 't) RunCallees \<Rightarrow> bool \<Rightarrow> 'h \<Rightarrow> 'v list option \<Rightarrow> 'o \<Rightarrow> nat list \<Rightarrow> nat \<Rightarrow> nat \<Rightarrow>
   ('v, 't) FLSeq \<Rightarrow> 't FV \<Rightarrow> FA \<Rightarrow> error + 'v PagerankResult" where
  "pagerankSeqSpec rc ASYNC xt q opts ks i n fl fv fa =
     (let u = prepare rc ASYNC xt q opts ks;
          s0 = \<lparr>mem = arg_mem u, cbuf = arg_c u, thr = [worker rc]\<rparr>
      in case fl (arg_a u) (arg_r u) (arg_f u) (arg_xv u) (arg_xe u) (arg_vdeg u) (arg_N u)
                (arg_P u) (arg_E u) (arg_L u) (arg_EF u) i n fv fa s0 of
           Inl err \<Rightarrow> Inl err
         | Inr (l, s1) \<Rightarrow> Inr \<lparr>ranks = collect rc xt (mem s1 (arg_r u)) ks, iterations = l\<rparr>)"

text \<open>
  Modelled from the spec: \<^verbatim>\<open>pagerankOmp\<close> (in \<^verbatim>\<open>pagerank.hxx\<close>) is missing. The same
  run with the fixed pool of workers.
\<close>

definition pagerankOmpSpec ::
  "('h, 'o, 'v, 't) RunCallees \<Rightarrow> bool \<Rightarrow> 'h \<Rightarrow> 'v list option \<Rightarrow> 'o \<Rightarrow> nat list \<Rightarrow> nat \<Rightarrow> nat \<Rightarrow>
   ('v, 't) FLOmp \<Rightarrow> 't FV \<Rightarrow> FA \<Rightarrow> 'v PagerankResult" where
  "pagerankOmpSpec rc ASYNC xt q opts ks i n fl fv fa =
     (let u = prepare rc ASYNC xt q opts ks;
          s0 = \<lparr>mem = arg_mem u, cbuf = arg_c u, thr = workers rc\<rparr>
      in case fl (arg_a u) (arg_r u) (arg_f u) (arg_xv u) (arg_xe u) (arg_vdeg u) (arg_N u)
                (arg_P u) (arg_E u) (arg_L u) (arg_EF u) i n fv fa s0 of
           (l, s1) \<Rightarrow> \<lparr>ranks = collect rc xt (mem s1 (arg_r u)) ks, iterations = l\<rparr>)"

subsection \<open>A small concrete instance\<close>

text \<open>
  Two vertices, ranks over \<open>real\<close>. The rank update writes \<open>C0\<close> at every affected
  position of the range and runs the callback once on each worker it is given; the
  error is \<open>0\<close> when the two vectors agree and \<open>1\<close> otherwise.
\<close>

definition ex_cs :: "(real, unit) LoopCallees" where
  "ex_cs =
     \<lparr>toV = real,
      pagerankTeleport = (\<lambda>r vdeg P N. 1),
      pagerankCalculateRanks =
        (\<lambda>a c xv xe C0 i n t fv fa. (map (\<lambda>u. if fa u then C0 else a ! u) [i..<i + n], fv t i)),
      multiplyValuesW = (\<lambda>c a f i n. a),
      pagerankError = (\<lambda>a r EF i n. if a = r then 0 else 1),
      pagerankTeleportOmp = (\<lambda>r vdeg P N. 1),
      pagerankCalculateRanksOmp =
        (\<lambda>a c xv xe C0 i n ts fv fa.
           (map (\<lambda>u. if fa u then C0 else a ! u) [i..<i + n], map (\<lambda>t. fv t i) ts)),
      multiplyValuesOmpW = (\<lambda>c a f i n. a),
      pagerankErrorOmp = (\<lambda>a r EF i n. if a = r then 0 else 1)\<rparr>"

definition ex_fv :: "unit FV" where
  "ex_fv t v = t"

definition ex_fv_crash :: "unit FV" where
  "ex_fv_crash t v = t\<lparr>crashed := True\<rparr>"

definition ex_state :: "bool \<Rightarrow> (real, unit) LoopState" where
  "ex_state flag =
     \<lparr>mem = (\<lambda>p. if p = 0 then [0, 0] else [1 / 2, 1 / 2]),
      cbuf = [0, 0],
      thr = [\<lparr>crashed = flag\<rparr>]\<rparr>"

text \<open>
  The loops on this instance: \<^verbatim>\<open>a\<close> at address \<open>0\<close>, \<^verbatim>\<open>r\<close> at address \<open>1\<close>,
  \<open>N = 2\<close>, \<open>P = 1/2\<close>, \<open>E = 1/10\<close>, the range \<open>[0, 2)\<close>, every vertex affected.
\<close>

definition ex_seq_loop ::
  "bool \<Rightarrow> bool \<Rightarrow> int \<Rightarrow> unit FV \<Rightarrow> (real, unit) LoopState \<Rightarrow> error + (int \<times> (real, unit) LoopState)" where
  "ex_seq_loop ASYNC DEAD L fv s =
     pagerankBasicSeqLoop ASYNC DEAD ex_cs 0 1 [1, 1] [0, 1, 2] [1, 0] [1, 1] 2 (1 / 2) (1 / 10) L 1
       0 2 fv (\<lambda>u. True) s"

definition ex_omp_loop ::
  "bool \<Rightarrow> bool \<Rightarrow> int \<Rightarrow> unit FV \<Rightarrow> (real, unit) LoopState \<Rightarrow> int \<times> (real, unit) LoopState" where
  "ex_omp_loop ASYNC DEAD L fv s =
     pagerankBasicOmpLoop ASYNC DEAD ex_cs 0 1 [1, 1] [0, 1, 2] [1, 0] [1, 1] 2 (1 / 2) (1 / 10) L 1
       0 2 fv (\<lambda>u. True) s"

text \<open>
  Drivers on this instance: a graph is the list of its vertex keys, the traversal
  returns the endpoints of the changed edges, the run starts from the initial ranks
  \<^verbatim>\<open>q\<close> when given and from \<open>1/N\<close> otherwise.
\<close>

definition ex_rc :: "(nat list, unit, real, unit) RunCallees" where
  "ex_rc =
     \<lparr>prepare = (\<lambda>ASYNC xt q opts ks.
        \<lparr>arg_a = (if ASYNC then 1 else 0), arg_r = 1,
         arg_mem = (\<lambda>p. case q of None \<Rightarrow> map (\<lambda>k. 1 / real (length ks)) ks | Some qs \<Rightarrow> qs),
         arg_c = map (\<lambda>k. 0) ks, arg_f = map (\<lambda>k. 1) ks,
         arg_xv = [], arg_xe = [], arg_vdeg = map (\<lambda>k. 1) ks,
         arg_N = length ks, arg_P = 1 / 2, arg_E = 1 / 10, arg_L = 5, arg_EF = 1\<rparr>),
      worker = \<lparr>crashed = False\<rparr>,
      workers = [\<lparr>crashed = False\<rparr>, \<lparr>crashed = False\<rparr>],
      collect = (\<lambda>xt r ks. r)\<rparr>"

definition ex_ds :: "(nat list, nat list, unit, nat list, real, unit) DriverCallees" where
  "ex_ds =
     \<lparr>keyBits = 32,
      order = length,
      vertexKeys = (\<lambda>xt. xt),
      pagerankAffectedVerticesTraversal = (\<lambda>x deletions insertions.
        map fst (deletions @ insertions) @ map snd (deletions @ insertions)),
      compressContainer = (\<lambda>y vs ks. map (\<lambda>k. k \<in> set vs) ks),
      pagerankSeq = pagerankSeqSpec ex_rc,
      pagerankOmp = pagerankOmpSpec ex_rc\<rparr>"



subsection \<open>Unfolding the loops\<close>

lemma seq_body_total:
  assumes "thr s \<noteq> []"
  shows "\<exists>s1 el. pagerankBasicSeqBody ASYNC DEAD cs pa pr f xv xe vdeg N P EF i n fv fa s = Inr (s1, el)
           \<and> thr s1 \<noteq> []"
proof -
  from assms obtain t0 ts where "thr s = t0 # ts"
    by (cases "thr s") auto
  then show ?thesis
    by (simp add: pagerankBasicSeqBody_def Let_def split: prod.splits)
qed

lemma seq_body_thr:
  assumes "pagerankBasicSeqBody ASYNC DEAD cs pa pr f xv xe vdeg N P EF i n fv fa s = Inr (s1, el)"
  shows "thr s \<noteq> [] \<and> thr s1 \<noteq> []"
  using assms
  by (auto simp: pagerankBasicSeqBody_def Let_def split: list.splits prod.splits)

lemma seq_while_exit:
  "\<not> l < L \<Longrightarrow>
   pagerankBasicSeqWhile ASYNC DEAD cs pa pr f xv xe vdeg N P E L EF i n fv fa l s = Inr (l, s)"
  by (simp add: pagerankBasicSeqWhile.simps)

lemma seq_while_pass:
  assumes "l < L"
    and "pagerankBasicSeqBody ASYNC DEAD cs pa pr f xv xe vdeg N P EF i n fv fa s = Inr (s1, el)"
  shows "pagerankBasicSeqWhile ASYNC DEAD cs pa pr f xv xe vdeg N P E L EF i n fv fa l s =
     (if el < E \<or> crashed (hd (thr s1)) then Inr (l + 1, s1)
      else pagerankBasicSeqWhile ASYNC DEAD cs pa pr f xv xe vdeg N P E L EF i n fv fa (l + 1) s1)"
  using assms
  by (subst pagerankBasicSeqWhile.simps) simp

lemma seq_while_error:
  assumes "l < L" and "thr s = []"
  shows "pagerankBasicSeqWhile ASYNC DEAD cs pa pr f xv xe vdeg N P E L EF i n fv fa l s =
     Inl ThreadIndexOutOfRange"
  using assms
  by (subst pagerankBasicSeqWhile.simps) (simp add: pagerankBasicSeqBody_def)

lemma omp_while_exit:
  "\<not> l < L \<Longrightarrow>
   pagerankBasicOmpWhile ASYNC DEAD cs pa pr f xv xe vdeg N P E L EF i n fv fa l s = (l, s)"
  by (simp add: pagerankBasicOmpWhile.simps)

lemma omp_while_pass:
  assumes "l < L"
    and "pagerankBasicOmpBody ASYNC DEAD cs pa pr f xv xe vdeg N P EF i n fv fa s = (s1, el)"
  shows "pagerankBasicOmpWhile ASYNC DEAD cs pa pr f xv xe vdeg N P E L EF i n fv fa l s =
     (if el < E \<or> threadInfosCrashedCount (thr s1) > 0 then (l + 1, s1)
      else pagerankBasicOmpWhile ASYNC DEAD cs pa pr f xv xe vdeg N P E L EF i n fv fa (l + 1) s1)"
  using assms
  by (subst pagerankBasicOmpWhile.simps) simp

lemma seq_run_snoc:
  "pagerankBasicSeqRun ASYNC DEAD cs pa pr f xv xe vdeg N P EF i n fv fa (Suc k) s =
     (case pagerankBasicSeqRun ASYNC DEAD cs pa pr f xv xe vdeg N P EF i n fv fa k s of
        Inl err \<Rightarrow> Inl err
      | Inr sk \<Rightarrow> map_sum id fst (pagerankBasicSeqBody ASYNC DEAD cs pa pr f xv xe vdeg N P EF i n fv fa sk))"
proof (induction k arbitrary: s)
  case 0
  show ?case by (simp split: sum.splits)
next
  case (Suc k)
  show ?case
  proof (cases "pagerankBasicSeqBody ASYNC DEAD cs pa pr f xv xe vdeg N P EF i n fv fa s")
    case (Inl err)
    then show ?thesis by simp
  next
    case (Inr p)
    obtain s1 el where p: "p = (s1, el)" by (cases p)
    have "pagerankBasicSeqRun ASYNC DEAD cs pa pr f xv xe vdeg N P EF i n fv fa (Suc (Suc k)) s =
          pagerankBasicSeqRun ASYNC DEAD cs pa pr f xv xe vdeg N P EF i n fv fa (Suc k) s1"
      using Inr p by simp
    also have "\<dots> =
      (case pagerankBasicSeqRun ASYNC DEAD cs pa pr f xv xe vdeg N P EF i n fv fa k s1 of
         Inl err \<Rightarrow> Inl err
       | Inr sk \<Rightarrow> map_sum id fst (pagerankBasicSeqBody ASYNC DEAD cs pa pr f xv xe vdeg N P EF i n fv fa sk))"
      by (rule Suc.IH)
    also have "pagerankBasicSeqRun ASYNC DEAD cs pa pr f xv xe vdeg N P EF i n fv fa k s1 =
          pagerankBasicSeqRun ASYNC DEAD cs pa pr f xv xe vdeg N P EF i n fv fa (Suc k) s"
      using Inr p by simp
    finally show ?thesis .
  qed
qed

lemma omp_run_snoc:
  "pagerankBasicOmpRun ASYNC DEAD cs pa pr f xv xe vdeg N P EF i n fv fa (Suc k) s =
     fst (pagerankBasicOmpBody ASYNC DEAD cs pa pr f xv xe vdeg N P EF i n fv fa
            (pagerankBasicOmpRun ASYNC DEAD cs pa pr f xv xe vdeg N P EF i n fv fa k s))"
  by (induction k arbitrary: s) simp_all

text \<open>
  A run of the single-worker loop entered with \<open>l < L\<close> and at least one worker:
  it returns after \<open>k + 1\<close> passes, the state is that of pass \<open>k + 1\<close>, one of the
  three exits holds there, and none held after an earlier pass.
\<close>

lemma seq_while_char:
  assumes "l < L" and "thr s \<noteq> []"
  shows "\<exists>k sk s' el.
           pagerankBasicSeqWhile ASYNC DEAD cs pa pr f xv xe vdeg N P E L EF i n fv fa l s
             = Inr (l + 1 + int k, s')
         \<and> l + 1 + int k \<le> L
         \<and> pagerankBasicSeqRun ASYNC DEAD cs pa pr f xv xe vdeg N P EF i n fv fa k s = Inr sk
         \<and> pagerankBasicSeqBody ASYNC DEAD cs pa pr f xv xe vdeg N P EF i n fv fa sk = Inr (s', el)
         \<and> (el < E \<or> crashed (hd (thr s')) \<or> l + 1 + int k = L)
         \<and> (\<forall>j<k. \<exists>sj sj' elj.
               pagerankBasicSeqRun ASYNC DEAD cs pa pr f xv xe vdeg N P EF i n fv fa j s = Inr sj
             \<and> pagerankBasicSeqBody ASYNC DEAD cs pa pr f xv xe vdeg N P EF i n fv fa sj = Inr (sj', elj)
             \<and> \<not> elj < E \<and> \<not> crashed (hd (thr sj')))"
  using assms
proof (induction "nat (L - l)" arbitrary: l s)
  case 0
  then show ?case by simp
next
  case (Suc m)
  let ?W = "pagerankBasicSeqWhile ASYNC DEAD cs pa pr f xv xe vdeg N P E L EF i n fv fa"
  let ?B = "pagerankBasicSeqBody ASYNC DEAD cs pa pr f xv xe vdeg N P EF i n fv fa"
  let ?R = "pagerankBasicSeqRun ASYNC DEAD cs pa pr f xv xe vdeg N P EF i n fv fa"
  from seq_body_total [OF Suc.prems(2)]
  obtain s1 el where body: "?B s = Inr (s1, el)" and thr1: "thr s1 \<noteq> []"
    by blast
  note step = seq_while_pass [OF Suc.prems(1) body, of E]
  show ?case
  proof (cases "el < E \<or> crashed (hd (thr s1)) \<or> l + 1 = L")
    case True
    have "?W l s = Inr (l + 1 + int 0, s1)"
    proof (cases "el < E \<or> crashed (hd (thr s1))")
      case True
      then show ?thesis using step by simp
    next
      case False
      with True have "\<not> l + 1 < L" by simp
      then have "?W (l + 1) s1 = Inr (l + 1, s1)" by (rule seq_while_exit)
      then show ?thesis using step False by simp
    qed
    moreover have "l + 1 + int 0 \<le> L" using Suc.prems(1) by simp
    moreover have "?R 0 s = Inr s" by simp
    moreover have "el < E \<or> crashed (hd (thr s1)) \<or> l + 1 + int 0 = L" using True by simp
    ultimately show ?thesis using body by blast
  next
    case False
    then have lt: "l + 1 < L" using Suc.prems(1) by simp
    have m: "m = nat (L - (l + 1))" using Suc.hyps(2) by simp
    from Suc.hyps(1) [OF m lt thr1]
    obtain k sk s' el' where
      w: "?W (l + 1) s1 = Inr (l + 1 + 1 + int k, s')"
      and le: "l + 1 + 1 + int k \<le> L"
      and run: "?R k s1 = Inr sk"
      and last: "?B sk = Inr (s', el')"
      and stop: "el' < E \<or> crashed (hd (thr s')) \<or> l + 1 + 1 + int k = L"
      and before: "\<forall>j<k. \<exists>sj sj' elj. ?R j s1 = Inr sj \<and> ?B sj = Inr (sj', elj)
                     \<and> \<not> elj < E \<and> \<not> crashed (hd (thr sj'))"
      by blast
    have "?W l s = Inr (l + 1 + int (Suc k), s')"
      using step False w by (simp add: add.assoc)
    moreover have "l + 1 + int (Suc k) \<le> L" using le by simp
    moreover have "?R (Suc k) s = Inr sk" using body run by simp
    moreover have "el' < E \<or> crashed (hd (thr s')) \<or> l + 1 + int (Suc k) = L"
      using stop by (simp add: add.assoc)
    moreover have "\<forall>j<Suc k. \<exists>sj sj' elj. ?R j s = Inr sj \<and> ?B sj = Inr (sj', elj)
                     \<and> \<not> elj < E \<and> \<not> crashed (hd (thr sj'))"
    proof (intro allI impI)
      fix j assume j: "j < Suc k"
      show "\<exists>sj sj' elj. ?R j s = Inr sj \<and> ?B sj = Inr (sj', elj)
              \<and> \<not> elj < E \<and> \<not> crashed (hd (thr sj'))"
      proof (cases j)
        case 0
        then show ?thesis using body False by simp
      next
        case (Suc j')
        then have "j' < k" using j by simp
        with before obtain sj sj' elj where
          "?R j' s1 = Inr sj" "?B sj = Inr (sj', elj)" "\<not> elj < E" "\<not> crashed (hd (thr sj'))"
          by blast
        then show ?thesis using Suc body by simp
      qed
    qed
    ultimately show ?thesis using last by blast
  qed
qed

text \<open>The same for the multi-worker loop, which has no failing read.\<close>

lemma omp_while_char:
  assumes "l < L"
  shows "\<exists>k s' el.
           pagerankBasicOmpWhile ASYNC DEAD cs pa pr f xv xe vdeg N P E L EF i n fv fa l s
             = (l + 1 + int k, s')
         \<and> l + 1 + int k \<le> L
         \<and> pagerankBasicOmpBody ASYNC DEAD cs pa pr f xv xe vdeg N P EF i n fv fa
             (pagerankBasicOmpRun ASYNC DEAD cs pa pr f xv xe vdeg N P EF i n fv fa k s) = (s', el)
         \<and> (el < E \<or> threadInfosCrashedCount (thr s') > 0 \<or> l + 1 + int k = L)
         \<and> (\<forall>j<k. \<exists>sj' elj.
               pagerankBasicOmpBody ASYNC DEAD cs pa pr f xv xe vdeg N P EF i n fv fa
                 (pagerankBasicOmpRun ASYNC DEAD cs pa pr f xv xe vdeg N P EF i n fv fa j s) = (sj', elj)
             \<and> \<not> elj < E \<and> \<not> threadInfosCrashedCount (thr sj') > 0)"
  using assms
proof (induction "nat (L - l)" arbitrary: l s)
  case 0
  then show ?case by simp
next
  case (Suc m)
  let ?W = "pagerankBasicOmpWhile ASYNC DEAD cs pa pr f xv xe vdeg N P E L EF i n fv fa"
  let ?B = "pagerankBasicOmpBody ASYNC DEAD cs pa pr f xv xe vdeg N P EF i n fv fa"
  let ?R = "pagerankBasicOmpRun ASYNC DEAD cs pa pr f xv xe vdeg N P EF i n fv fa"
  obtain s1 el where body: "?B s = (s1, el)"
    by (cases "?B s")
  note step = omp_while_pass [OF Suc.prems(1) body, of E]
  show ?case
  proof (cases "el < E \<or> threadInfosCrashedCount (thr s1) > 0 \<or> l + 1 = L")
    case True
    have "?W l s = (l + 1 + int 0, s1)"
    proof (cases "el < E \<or> threadInfosCrashedCount (thr s1) > 0")
      case True
      then show ?thesis using step by simp
    next
      case False
      with True have "\<not> l + 1 < L" by simp
      then have "?W (l + 1) s1 = (l + 1, s1)" by (rule omp_while_exit)
      then show ?thesis using step False by simp
    qed
    moreover have "l + 1 + int 0 \<le> L" using Suc.prems(1) by simp
    moreover have "?B (?R 0 s) = (s1, el)" using body by simp
    moreover have "el < E \<or> threadInfosCrashedCount (thr s1) > 0 \<or> l + 1 + int 0 = L"
      using True by simp
    ultimately show ?thesis by blast
  next
    case False
    then have lt: "l + 1 < L" using Suc.prems(1) by simp
    have m: "m = nat (L - (l + 1))" using Suc.hyps(2) by simp
    from Suc.hyps(1) [OF m lt, of s1]
    obtain k s' el' where
      w: "?W (l + 1) s1 = (l + 1 + 1 + int k, s')"
      and le: "l + 1 + 1 + int k \<le> L"
      and last: "?B (?R k s1) = (s', el')"
      and stop: "el' < E \<or> threadInfosCrashedCount (thr s') > 0 \<or> l + 1 + 1 + int k = L"
      and before: "\<forall>j<k. \<exists>sj' elj. ?B (?R j s1) = (sj', elj)
                     \<and> \<not> elj < E \<and> \<not> threadInfosCrashedCount (thr sj') > 0"
      by blast
    have "?W l s = (l + 1 + int (Suc k), s')"
      using step False w by (simp add: add.assoc)
    moreover have "l + 1 + int (Suc k) \<le> L" using le by simp
    moreover have "?B (?R (Suc k) s) = (s', el')" using body last by simp
    moreover have "el' < E \<or> threadInfosCrashedCount (thr s') > 0 \<or> l + 1 + int (Suc k) = L"
      using stop by (simp add: add.assoc)
    moreover have "\<forall>j<Suc k. \<exists>sj' elj. ?B (?R j s) = (sj', elj)
                     \<and> \<not> elj < E \<and> \<not> threadInfosCrashedCount (thr sj') > 0"
    proof (intro allI impI)
      fix j assume j: "j < Suc k"
      show "\<exists>sj' elj. ?B (?R j s) = (sj', elj)
              \<and> \<not> elj < E \<and> \<not> threadInfosCrashedCount (thr sj') > 0"
      proof (cases j)
        case 0
        then show ?thesis using body False by simp
      next
        case (Suc j')
        then have "j' < k" using j by simp
        with before obtain sj' elj where
          "?B (?R j' s1) = (sj', elj)" "\<not> elj < E" "\<not> threadInfosCrashedCount (thr sj') > 0"
          by blast
        then show ?thesis using Suc body by simp
      qed
    qed
    ultimately show ?thesis by blast
  qed
qed

subsection \<open>Runs and what the loops return\<close>

lemma crashed_count_pos:
  "(threadInfosCrashedCount ts > 0) = (\<exists>t\<in>set ts. crashed t)"
  by (induction ts) (auto simp: threadInfosCrashedCount_def)

lemma seq_run_total:
  assumes "thr s \<noteq> []"
  shows "\<exists>sk. pagerankBasicSeqRun ASYNC DEAD cs pa pr f xv xe vdeg N P EF i n fv fa k s = Inr sk
           \<and> thr sk \<noteq> []"
  using assms
proof (induction k arbitrary: s)
  case 0
  then show ?case by simp
next
  case (Suc k)
  from seq_body_total [OF Suc.prems]
  obtain s1 el where
    "pagerankBasicSeqBody ASYNC DEAD cs pa pr f xv xe vdeg N P EF i n fv fa s = Inr (s1, el)"
    and "thr s1 \<noteq> []"
    by blast
  with Suc.IH [of s1] show ?case by simp
qed

lemma seq_run_last:
  assumes "pagerankBasicSeqRun ASYNC DEAD cs pa pr f xv xe vdeg N P EF i n fv fa k s = Inr sk"
    and "pagerankBasicSeqBody ASYNC DEAD cs pa pr f xv xe vdeg N P EF i n fv fa sk = Inr (s', el)"
  shows "pagerankBasicSeqRun ASYNC DEAD cs pa pr f xv xe vdeg N P EF i n fv fa (Suc k) s = Inr s'"
  using assms by (simp only: seq_run_snoc) simp

lemma omp_run_last:
  assumes "pagerankBasicOmpBody ASYNC DEAD cs pa pr f xv xe vdeg N P EF i n fv fa
             (pagerankBasicOmpRun ASYNC DEAD cs pa pr f xv xe vdeg N P EF i n fv fa k s) = (s', el)"
  shows "pagerankBasicOmpRun ASYNC DEAD cs pa pr f xv xe vdeg N P EF i n fv fa (Suc k) s = s'"
  using assms by (simp only: omp_run_snoc) simp

text \<open>Whatever the single-worker loop returns is the state after that many whole passes.\<close>

lemma seq_loop_is_run:
  assumes "pagerankBasicSeqLoop ASYNC DEAD cs pa pr f xv xe vdeg N P E L EF i n fv fa s = Inr (l, s')"
  shows "0 \<le> l \<and> l \<le> max 0 L
       \<and> pagerankBasicSeqRun ASYNC DEAD cs pa pr f xv xe vdeg N P EF i n fv fa (nat l) s = Inr s'"
proof (cases "0 < L")
  case False
  then have "pagerankBasicSeqLoop ASYNC DEAD cs pa pr f xv xe vdeg N P E L EF i n fv fa s = Inr (0, s)"
    unfolding pagerankBasicSeqLoop_def by (rule seq_while_exit)
  with assms show ?thesis by simp
next
  case True
  have ne: "thr s \<noteq> []"
  proof
    assume "thr s = []"
    from seq_while_error [OF True this]
    have "pagerankBasicSeqLoop ASYNC DEAD cs pa pr f xv xe vdeg N P E L EF i n fv fa s
            = Inl ThreadIndexOutOfRange"
      unfolding pagerankBasicSeqLoop_def .
    with assms show False by simp
  qed
  from seq_while_char [OF True ne, of ASYNC DEAD cs pa pr f xv xe vdeg N P E EF i n fv fa]
  obtain k sk s'' el where
    w: "pagerankBasicSeqWhile ASYNC DEAD cs pa pr f xv xe vdeg N P E L EF i n fv fa 0 s
          = Inr (0 + 1 + int k, s'')"
    and le: "0 + 1 + int k \<le> L"
    and run: "pagerankBasicSeqRun ASYNC DEAD cs pa pr f xv xe vdeg N P EF i n fv fa k s = Inr sk"
    and last: "pagerankBasicSeqBody ASYNC DEAD cs pa pr f xv xe vdeg N P EF i n fv fa sk = Inr (s'', el)"
    by blast
  from w assms have l: "l = 1 + int k" and s': "s' = s''"
    unfolding pagerankBasicSeqLoop_def by simp_all
  have "nat l = Suc k" using l by simp
  with seq_run_last [OF run last] le l s' show ?thesis by simp
qed

lemma omp_loop_is_run:
  assumes "pagerankBasicOmpLoop ASYNC DEAD cs pa pr f xv xe vdeg N P E L EF i n fv fa s = (l, s')"
  shows "0 \<le> l \<and> l \<le> max 0 L
       \<and> pagerankBasicOmpRun ASYNC DEAD cs pa pr f xv xe vdeg N P EF i n fv fa (nat l) s = s'"
proof (cases "0 < L")
  case False
  then have "pagerankBasicOmpLoop ASYNC DEAD cs pa pr f xv xe vdeg N P E L EF i n fv fa s = (0, s)"
    unfolding pagerankBasicOmpLoop_def by (rule omp_while_exit)
  with assms show ?thesis by simp
next
  case True
  from omp_while_char [OF True, of ASYNC DEAD cs pa pr f xv xe vdeg N P E EF i n fv fa s]
  obtain k s'' el where
    w: "pagerankBasicOmpWhile ASYNC DEAD cs pa pr f xv xe vdeg N P E L EF i n fv fa 0 s
          = (0 + 1 + int k, s'')"
    and le: "0 + 1 + int k \<le> L"
    and last: "pagerankBasicOmpBody ASYNC DEAD cs pa pr f xv xe vdeg N P EF i n fv fa
                 (pagerankBasicOmpRun ASYNC DEAD cs pa pr f xv xe vdeg N P EF i n fv fa k s) = (s'', el)"
    by blast
  from w assms have l: "l = 1 + int k" and s': "s' = s''"
    unfolding pagerankBasicOmpLoop_def by simp_all
  have "nat l = Suc k" using l by simp
  with omp_run_last [OF last] le l s' show ?thesis by simp
qed

lemma seq_while_fail:
  assumes "l < L"
    and "pagerankBasicSeqBody ASYNC DEAD cs pa pr f xv xe vdeg N P EF i n fv fa s = Inl err"
  shows "pagerankBasicSeqWhile ASYNC DEAD cs pa pr f xv xe vdeg N P E L EF i n fv fa l s = Inl err"
  using assms
  by (subst pagerankBasicSeqWhile.simps) simp

text \<open>When the first pass finds the error below the tolerance, the loops return after it.\<close>

lemma seq_first_pass_converged:
  assumes "pagerankBasicSeqBody ASYNC DEAD cs pa pr f xv xe vdeg N P EF i n fv fa s = Inr (s1, el)"
    and "el < E"
  shows "pagerankBasicSeqLoop ASYNC DEAD cs pa pr f xv xe vdeg N P E L EF i n fv fa s =
           (if 0 < L then Inr (1, s1) else Inr (0, s))"
proof (cases "0 < L")
  case True
  from seq_while_pass [OF True assms(1), of E] assms(2) True show ?thesis
    by (simp add: pagerankBasicSeqLoop_def)
next
  case False
  then show ?thesis
    by (simp add: pagerankBasicSeqLoop_def seq_while_exit)
qed

lemma omp_first_pass_converged:
  assumes "pagerankBasicOmpBody ASYNC DEAD cs pa pr f xv xe vdeg N P EF i n fv fa s = (s1, el)"
    and "el < E"
  shows "pagerankBasicOmpLoop ASYNC DEAD cs pa pr f xv xe vdeg N P E L EF i n fv fa s =
           (if 0 < L then (1, s1) else (0, s))"
proof (cases "0 < L")
  case True
  from omp_while_pass [OF True assms(1), of E] assms(2) True show ?thesis
    by (simp add: pagerankBasicOmpLoop_def)
next
  case False
  then show ?thesis
    by (simp add: pagerankBasicOmpLoop_def omp_while_exit)
qed

subsection \<open>What one pass writes\<close>

lemma seq_body_eq:
  assumes "thr s = t0 # ts"
  shows "pagerankBasicSeqBody ASYNC DEAD cs pa pr f xv xe vdeg N P EF i n fv fa s =
     (let res = pagerankCalculateRanks cs (mem s pa) (cbuf s) xv xe
                  (pagerankBasicSeqC0 DEAD cs (mem s pr) vdeg P N) i n t0 fv fa;
          m1 = (mem s)(pa := fst res)
      in Inr (\<lparr>mem = (if ASYNC then m1 else m1(pa := m1 pr, pr := fst res)),
               cbuf = multiplyValuesW cs (cbuf s) (fst res) f i n,
               thr = snd res # ts\<rparr>,
              pagerankError cs (fst res) (m1 pr) EF i n))"
  using assms
  by (simp add: pagerankBasicSeqBody_def Let_def case_prod_beta)

lemma omp_body_eq:
  "pagerankBasicOmpBody ASYNC DEAD cs pa pr f xv xe vdeg N P EF i n fv fa s =
     (let res = pagerankCalculateRanksOmp cs (mem s pa) (cbuf s) xv xe
                  (pagerankBasicOmpC0 DEAD cs (mem s pr) vdeg P N) i n (thr s) fv fa;
          m1 = (mem s)(pa := fst res)
      in (\<lparr>mem = (if ASYNC then m1 else m1(pa := m1 pr, pr := fst res)),
           cbuf = multiplyValuesOmpW cs (cbuf s) (fst res) f i n,
           thr = snd res\<rparr>,
          pagerankErrorOmp cs (fst res) (m1 pr) EF i n))"
  by (simp add: pagerankBasicOmpBody_def Let_def case_prod_beta)

text \<open>After a pass the new ranks are in \<^verbatim>\<open>a\<close> when \<^verbatim>\<open>ASYNC\<close>, in \<^verbatim>\<open>r\<close> otherwise.\<close>

lemma seq_body_new_ranks:
  assumes "pagerankBasicSeqBody ASYNC DEAD cs pa pr f xv xe vdeg N P EF i n fv fa s = Inr (s1, el)"
  shows "mem s1 (if ASYNC then pa else pr) =
     fst (pagerankCalculateRanks cs (mem s pa) (cbuf s) xv xe
            (pagerankBasicSeqC0 DEAD cs (mem s pr) vdeg P N) i n (hd (thr s)) fv fa)"
proof -
  from seq_body_thr [OF assms] obtain t0 ts where t: "thr s = t0 # ts"
    by (cases "thr s") auto
  from assms show ?thesis
    unfolding seq_body_eq [OF t] by (auto simp: Let_def t)
qed

lemma omp_body_new_ranks:
  assumes "pagerankBasicOmpBody ASYNC DEAD cs pa pr f xv xe vdeg N P EF i n fv fa s = (s1, el)"
  shows "mem s1 (if ASYNC then pa else pr) =
     fst (pagerankCalculateRanksOmp cs (mem s pa) (cbuf s) xv xe
            (pagerankBasicOmpC0 DEAD cs (mem s pr) vdeg P N) i n (thr s) fv fa)"
  using assms unfolding omp_body_eq by (auto simp: Let_def)



subsection \<open>Every pass of a run calls the rank update\<close>



subsection \<open>The conversion to the key type and the modelled run\<close>




section \<open>The claims\<close>

subsection \<open>C3: when the loops stop\<close>

text \<open>
  C3. With \<open>1 \<le> L\<close> both loops return. The single-worker loop (given a worker
  \<^verbatim>\<open>threads[0]\<close> to read) returns after \<open>1 + k\<close> passes, \<open>1 + k \<le> L\<close>, and after
  pass \<open>1 + k\<close> the error is below the tolerance, or the count has reached \<open>L\<close>, or
  the flag of worker 0 is set; after every earlier pass none of the three holds. The
  multi-worker loop does the same with "the flag of some worker is set".
\<close>

theorem loop_stops_exactly:
  assumes "1 \<le> L"
  shows "(thr s \<noteq> [] \<longrightarrow>
          (\<exists>k sk s' el.
             pagerankBasicSeqLoop ASYNC DEAD cs pa pr f xv xe vdeg N P E L EF i n fv fa s
               = Inr (1 + int k, s')
           \<and> 1 + int k \<le> L
           \<and> pagerankBasicSeqRun ASYNC DEAD cs pa pr f xv xe vdeg N P EF i n fv fa k s = Inr sk
           \<and> pagerankBasicSeqBody ASYNC DEAD cs pa pr f xv xe vdeg N P EF i n fv fa sk = Inr (s', el)
           \<and> (el < E \<or> 1 + int k = L \<or> crashed (hd (thr s')))
           \<and> (\<forall>j<k. \<exists>sj sj' elj.
                 pagerankBasicSeqRun ASYNC DEAD cs pa pr f xv xe vdeg N P EF i n fv fa j s = Inr sj
               \<and> pagerankBasicSeqBody ASYNC DEAD cs pa pr f xv xe vdeg N P EF i n fv fa sj = Inr (sj', elj)
               \<and> \<not> elj < E \<and> 1 + int j \<noteq> L \<and> \<not> crashed (hd (thr sj')))))
       \<and> (\<exists>k s' el.
             pagerankBasicOmpLoop ASYNC DEAD cs pa pr f xv xe vdeg N P E L EF i n fv fa s
               = (1 + int k, s')
           \<and> 1 + int k \<le> L
           \<and> pagerankBasicOmpBody ASYNC DEAD cs pa pr f xv xe vdeg N P EF i n fv fa
               (pagerankBasicOmpRun ASYNC DEAD cs pa pr f xv xe vdeg N P EF i n fv fa k s) = (s', el)
           \<and> (el < E \<or> 1 + int k = L \<or> (\<exists>t\<in>set (thr s'). crashed t))
           \<and> (\<forall>j<k. \<exists>sj' elj.
                 pagerankBasicOmpBody ASYNC DEAD cs pa pr f xv xe vdeg N P EF i n fv fa
                   (pagerankBasicOmpRun ASYNC DEAD cs pa pr f xv xe vdeg N P EF i n fv fa j s) = (sj', elj)
               \<and> \<not> elj < E \<and> 1 + int j \<noteq> L \<and> \<not> (\<exists>t\<in>set (thr sj'). crashed t)))"
proof (intro conjI impI)
  assume ne: "thr s \<noteq> []"
  from assms have pos: "0 < L" by simp
  from seq_while_char [OF pos ne, of ASYNC DEAD cs pa pr f xv xe vdeg N P E EF i n fv fa]
  obtain k sk s' el where
    w: "pagerankBasicSeqWhile ASYNC DEAD cs pa pr f xv xe vdeg N P E L EF i n fv fa 0 s
          = Inr (0 + 1 + int k, s')"
    and le: "0 + 1 + int k \<le> L"
    and run: "pagerankBasicSeqRun ASYNC DEAD cs pa pr f xv xe vdeg N P EF i n fv fa k s = Inr sk"
    and last: "pagerankBasicSeqBody ASYNC DEAD cs pa pr f xv xe vdeg N P EF i n fv fa sk = Inr (s', el)"
    and stop: "el < E \<or> crashed (hd (thr s')) \<or> 0 + 1 + int k = L"
    and before: "\<forall>j<k. \<exists>sj sj' elj.
        pagerankBasicSeqRun ASYNC DEAD cs pa pr f xv xe vdeg N P EF i n fv fa j s = Inr sj
      \<and> pagerankBasicSeqBody ASYNC DEAD cs pa pr f xv xe vdeg N P EF i n fv fa sj = Inr (sj', elj)
      \<and> \<not> elj < E \<and> \<not> crashed (hd (thr sj'))"
    by blast
  have "pagerankBasicSeqLoop ASYNC DEAD cs pa pr f xv xe vdeg N P E L EF i n fv fa s
          = Inr (1 + int k, s')"
    using w by (simp add: pagerankBasicSeqLoop_def)
  moreover have "1 + int k \<le> L" using le by simp
  moreover have "el < E \<or> 1 + int k = L \<or> crashed (hd (thr s'))" using stop by auto
  moreover have "\<forall>j<k. \<exists>sj sj' elj.
        pagerankBasicSeqRun ASYNC DEAD cs pa pr f xv xe vdeg N P EF i n fv fa j s = Inr sj
      \<and> pagerankBasicSeqBody ASYNC DEAD cs pa pr f xv xe vdeg N P EF i n fv fa sj = Inr (sj', elj)
      \<and> \<not> elj < E \<and> 1 + int j \<noteq> L \<and> \<not> crashed (hd (thr sj'))"
  proof (intro allI impI)
    fix j assume j: "j < k"
    with before obtain sj sj' elj where
      "pagerankBasicSeqRun ASYNC DEAD cs pa pr f xv xe vdeg N P EF i n fv fa j s = Inr sj"
      "pagerankBasicSeqBody ASYNC DEAD cs pa pr f xv xe vdeg N P EF i n fv fa sj = Inr (sj', elj)"
      "\<not> elj < E" "\<not> crashed (hd (thr sj'))"
      by blast
    moreover have "1 + int j \<noteq> L" using j le by simp
    ultimately show "\<exists>sj sj' elj.
        pagerankBasicSeqRun ASYNC DEAD cs pa pr f xv xe vdeg N P EF i n fv fa j s = Inr sj
      \<and> pagerankBasicSeqBody ASYNC DEAD cs pa pr f xv xe vdeg N P EF i n fv fa sj = Inr (sj', elj)
      \<and> \<not> elj < E \<and> 1 + int j \<noteq> L \<and> \<not> crashed (hd (thr sj'))"
      by blast
  qed
  ultimately show "\<exists>k sk s' el.
             pagerankBasicSeqLoop ASYNC DEAD cs pa pr f xv xe vdeg N P E L EF i n fv fa s
               = Inr (1 + int k, s')
           \<and> 1 + int k \<le> L
           \<and> pagerankBasicSeqRun ASYNC DEAD cs pa pr f xv xe vdeg N P EF i n fv fa k s = Inr sk
           \<and> pagerankBasicSeqBody ASYNC DEAD cs pa pr f xv xe vdeg N P EF i n fv fa sk = Inr (s', el)
           \<and> (el < E \<or> 1 + int k = L \<or> crashed (hd (thr s')))
           \<and> (\<forall>j<k. \<exists>sj sj' elj.
                 pagerankBasicSeqRun ASYNC DEAD cs pa pr f xv xe vdeg N P EF i n fv fa j s = Inr sj
               \<and> pagerankBasicSeqBody ASYNC DEAD cs pa pr f xv xe vdeg N P EF i n fv fa sj = Inr (sj', elj)
               \<and> \<not> elj < E \<and> 1 + int j \<noteq> L \<and> \<not> crashed (hd (thr sj')))"
    using run last by blast
next
  from assms have pos: "0 < L" by simp
  from omp_while_char [OF pos, of ASYNC DEAD cs pa pr f xv xe vdeg N P E EF i n fv fa s]
  obtain k s' el where
    w: "pagerankBasicOmpWhile ASYNC DEAD cs pa pr f xv xe vdeg N P E L EF i n fv fa 0 s
          = (0 + 1 + int k, s')"
    and le: "0 + 1 + int k \<le> L"
    and last: "pagerankBasicOmpBody ASYNC DEAD cs pa pr f xv xe vdeg N P EF i n fv fa
                 (pagerankBasicOmpRun ASYNC DEAD cs pa pr f xv xe vdeg N P EF i n fv fa k s) = (s', el)"
    and stop: "el < E \<or> threadInfosCrashedCount (thr s') > 0 \<or> 0 + 1 + int k = L"
    and before: "\<forall>j<k. \<exists>sj' elj.
        pagerankBasicOmpBody ASYNC DEAD cs pa pr f xv xe vdeg N P EF i n fv fa
          (pagerankBasicOmpRun ASYNC DEAD cs pa pr f xv xe vdeg N P EF i n fv fa j s) = (sj', elj)
      \<and> \<not> elj < E \<and> \<not> threadInfosCrashedCount (thr sj') > 0"
    by blast
  have "pagerankBasicOmpLoop ASYNC DEAD cs pa pr f xv xe vdeg N P E L EF i n fv fa s
          = (1 + int k, s')"
    using w by (simp add: pagerankBasicOmpLoop_def)
  moreover have "1 + int k \<le> L" using le by simp
  moreover have "el < E \<or> 1 + int k = L \<or> (\<exists>t\<in>set (thr s'). crashed t)"
    using stop by (auto simp: crashed_count_pos)
  moreover have "\<forall>j<k. \<exists>sj' elj.
        pagerankBasicOmpBody ASYNC DEAD cs pa pr f xv xe vdeg N P EF i n fv fa
          (pagerankBasicOmpRun ASYNC DEAD cs pa pr f xv xe vdeg N P EF i n fv fa j s) = (sj', elj)
      \<and> \<not> elj < E \<and> 1 + int j \<noteq> L \<and> \<not> (\<exists>t\<in>set (thr sj'). crashed t)"
  proof (intro allI impI)
    fix j assume j: "j < k"
    with before obtain sj' elj where
      "pagerankBasicOmpBody ASYNC DEAD cs pa pr f xv xe vdeg N P EF i n fv fa
         (pagerankBasicOmpRun ASYNC DEAD cs pa pr f xv xe vdeg N P EF i n fv fa j s) = (sj', elj)"
      "\<not> elj < E" "\<not> threadInfosCrashedCount (thr sj') > 0"
      by blast
    moreover have "1 + int j \<noteq> L" using j le by simp
    ultimately show "\<exists>sj' elj.
        pagerankBasicOmpBody ASYNC DEAD cs pa pr f xv xe vdeg N P EF i n fv fa
          (pagerankBasicOmpRun ASYNC DEAD cs pa pr f xv xe vdeg N P EF i n fv fa j s) = (sj', elj)
      \<and> \<not> elj < E \<and> 1 + int j \<noteq> L \<and> \<not> (\<exists>t\<in>set (thr sj'). crashed t)"
      by (simp add: crashed_count_pos)
  qed
  ultimately show "\<exists>k s' el.
             pagerankBasicOmpLoop ASYNC DEAD cs pa pr f xv xe vdeg N P E L EF i n fv fa s
               = (1 + int k, s')
           \<and> 1 + int k \<le> L
           \<and> pagerankBasicOmpBody ASYNC DEAD cs pa pr f xv xe vdeg N P EF i n fv fa
               (pagerankBasicOmpRun ASYNC DEAD cs pa pr f xv xe vdeg N P EF i n fv fa k s) = (s', el)
           \<and> (el < E \<or> 1 + int k = L \<or> (\<exists>t\<in>set (thr s'). crashed t))
           \<and> (\<forall>j<k. \<exists>sj' elj.
                 pagerankBasicOmpBody ASYNC DEAD cs pa pr f xv xe vdeg N P EF i n fv fa
                   (pagerankBasicOmpRun ASYNC DEAD cs pa pr f xv xe vdeg N P EF i n fv fa j s) = (sj', elj)
               \<and> \<not> elj < E \<and> 1 + int j \<noteq> L \<and> \<not> (\<exists>t\<in>set (thr sj'). crashed t))"
    using last by blast
qed

text \<open>
  On the concrete instance with \<open>L = 5\<close> both loops return a count between 1 and 5.
\<close>

theorem loop_stops_exactly_witness:
  "(1::int) \<le> 5 \<and> thr (ex_state False) \<noteq> []
   \<and> (\<exists>k s'. ex_seq_loop False False 5 ex_fv (ex_state False) = Inr (1 + int k, s') \<and> 1 + int k \<le> 5)
   \<and> (\<exists>k s'. ex_omp_loop False False 5 ex_fv (ex_state False) = (1 + int k, s') \<and> 1 + int k \<le> 5)"
proof -
  have L: "(1::int) \<le> 5" by simp
  have ne: "thr (ex_state False) \<noteq> []" by (simp add: ex_state_def)
  note inst = loop_stops_exactly [OF L, where s = "ex_state False" and ASYNC = False
      and DEAD = False and cs = ex_cs and pa = 0 and pr = 1 and f = "[1, 1]"
      and xv = "[0, 1, 2]" and xe = "[1, 0]" and vdeg = "[1, 1]" and N = 2 and P = "1 / 2"
      and E = "1 / 10" and EF = 1 and i = 0 and n = 2 and fv = ex_fv and fa = "\<lambda>u. True"]
  from inst ne have
    "\<exists>k s'. ex_seq_loop False False 5 ex_fv (ex_state False) = Inr (1 + int k, s') \<and> 1 + int k \<le> 5"
    unfolding ex_seq_loop_def by blast
  moreover from inst have
    "\<exists>k s'. ex_omp_loop False False 5 ex_fv (ex_state False) = (1 + int k, s') \<and> 1 + int k \<le> 5"
    unfolding ex_omp_loop_def by blast
  ultimately show ?thesis using L ne by blast
qed

subsection \<open>C9: at least one pass\<close>

text \<open>
  C9. With \<open>1 \<le> L\<close> the first pass runs before any break is tested: whatever the
  flags of the workers and whatever the initial ranks and the tolerance, the count
  returned is at least 1, and the state returned is the state after that many passes.
\<close>

theorem loop_at_least_one_pass:
  assumes "1 \<le> L"
  shows "(thr s \<noteq> [] \<longrightarrow>
          (\<exists>l s'. pagerankBasicSeqLoop ASYNC DEAD cs pa pr f xv xe vdeg N P E L EF i n fv fa s = Inr (l, s')
             \<and> 1 \<le> l
             \<and> pagerankBasicSeqRun ASYNC DEAD cs pa pr f xv xe vdeg N P EF i n fv fa (nat l) s = Inr s'))
       \<and> 1 \<le> fst (pagerankBasicOmpLoop ASYNC DEAD cs pa pr f xv xe vdeg N P E L EF i n fv fa s)
       \<and> pagerankBasicOmpRun ASYNC DEAD cs pa pr f xv xe vdeg N P EF i n fv fa
           (nat (fst (pagerankBasicOmpLoop ASYNC DEAD cs pa pr f xv xe vdeg N P E L EF i n fv fa s))) s
         = snd (pagerankBasicOmpLoop ASYNC DEAD cs pa pr f xv xe vdeg N P E L EF i n fv fa s)"
proof (intro conjI impI)
  assume ne: "thr s \<noteq> []"
  from assms have pos: "0 < L" by simp
  from seq_while_char [OF pos ne, of ASYNC DEAD cs pa pr f xv xe vdeg N P E EF i n fv fa]
  obtain k s' where
    w: "pagerankBasicSeqLoop ASYNC DEAD cs pa pr f xv xe vdeg N P E L EF i n fv fa s
          = Inr (1 + int k, s')"
    unfolding pagerankBasicSeqLoop_def by auto
  from seq_loop_is_run [OF w] w
  show "\<exists>l s'. pagerankBasicSeqLoop ASYNC DEAD cs pa pr f xv xe vdeg N P E L EF i n fv fa s = Inr (l, s')
          \<and> 1 \<le> l
          \<and> pagerankBasicSeqRun ASYNC DEAD cs pa pr f xv xe vdeg N P EF i n fv fa (nat l) s = Inr s'"
    by auto
next
  from assms have pos: "0 < L" by simp
  from omp_while_char [OF pos, of ASYNC DEAD cs pa pr f xv xe vdeg N P E EF i n fv fa s]
  obtain k s' where
    "pagerankBasicOmpLoop ASYNC DEAD cs pa pr f xv xe vdeg N P E L EF i n fv fa s = (1 + int k, s')"
    unfolding pagerankBasicOmpLoop_def by auto
  then show "1 \<le> fst (pagerankBasicOmpLoop ASYNC DEAD cs pa pr f xv xe vdeg N P E L EF i n fv fa s)"
    by simp
next
  obtain l s' where
    w: "pagerankBasicOmpLoop ASYNC DEAD cs pa pr f xv xe vdeg N P E L EF i n fv fa s = (l, s')"
    by (cases "pagerankBasicOmpLoop ASYNC DEAD cs pa pr f xv xe vdeg N P E L EF i n fv fa s")
  from omp_loop_is_run [OF w] w
  show "pagerankBasicOmpRun ASYNC DEAD cs pa pr f xv xe vdeg N P EF i n fv fa
           (nat (fst (pagerankBasicOmpLoop ASYNC DEAD cs pa pr f xv xe vdeg N P E L EF i n fv fa s))) s
         = snd (pagerankBasicOmpLoop ASYNC DEAD cs pa pr f xv xe vdeg N P E L EF i n fv fa s)"
    by simp
qed

text \<open>The instance started with the flag of its worker already set: the count is at least 1.\<close>

theorem loop_at_least_one_pass_witness:
  "(1::int) \<le> 5 \<and> thr (ex_state True) \<noteq> [] \<and> crashed (hd (thr (ex_state True)))
   \<and> (\<exists>l s'. ex_seq_loop False False 5 ex_fv (ex_state True) = Inr (l, s') \<and> 1 \<le> l)
   \<and> 1 \<le> fst (ex_omp_loop False False 5 ex_fv (ex_state True))"
proof -
  have L: "(1::int) \<le> 5" by simp
  have ne: "thr (ex_state True) \<noteq> []" by (simp add: ex_state_def)
  have flag: "crashed (hd (thr (ex_state True)))" by (simp add: ex_state_def)
  note inst = loop_at_least_one_pass [OF L, where s = "ex_state True" and ASYNC = False
      and DEAD = False and cs = ex_cs and pa = 0 and pr = 1 and f = "[1, 1]"
      and xv = "[0, 1, 2]" and xe = "[1, 0]" and vdeg = "[1, 1]" and N = 2 and P = "1 / 2"
      and E = "1 / 10" and EF = 1 and i = 0 and n = 2 and fv = ex_fv and fa = "\<lambda>u. True"]
  from inst ne have
    "\<exists>l s'. ex_seq_loop False False 5 ex_fv (ex_state True) = Inr (l, s') \<and> 1 \<le> l"
    unfolding ex_seq_loop_def by blast
  moreover from inst have "1 \<le> fst (ex_omp_loop False False 5 ex_fv (ex_state True))"
    unfolding ex_omp_loop_def by blast
  ultimately show ?thesis using L ne flag by blast
qed

subsection \<open>C1: a failure flag and the count returned\<close>

text \<open>
  C1 as stated fails for \<open>k = 1\<close>: the flag is tested after a pass only, so a run
  entered with the flag of its worker set still makes pass 1 and returns 1, which is
  not below 1. Both loops, on the concrete instance with \<open>L = 5\<close>.
\<close>

theorem flag_before_first_pass_counterexample:
  "crashed (hd (thr (ex_state True)))
   \<and> map_sum id fst (ex_seq_loop False False 5 ex_fv (ex_state True)) = Inr 1
   \<and> \<not> fst (ex_omp_loop False False 5 ex_fv (ex_state True)) < 1"
  by (simp add: ex_seq_loop_def ex_omp_loop_def pagerankBasicSeqLoop_def pagerankBasicOmpLoop_def
      pagerankBasicSeqWhile.simps pagerankBasicOmpWhile.simps pagerankBasicSeqBody_def
      pagerankBasicOmpBody_def pagerankBasicSeqC0_def pagerankBasicOmpC0_def
      threadInfosCrashedCount_def ex_cs_def ex_fv_def ex_state_def Let_def upt_conv_Cons)

text \<open>
  C1, amended. For \<open>2 \<le> k\<close>: when the flag is set in the state in which pass \<open>k\<close>
  would start (the state after \<open>k - 1\<close> whole passes; the flag of worker 0 for the
  single-worker loop, of any worker for the multi-worker loop), the loop returns a
  count below \<open>k\<close>, and the state it returns is exactly the state after that many
  whole passes: nothing is written after the stop.
\<close>

theorem flag_stops_before_pass:
  assumes "2 \<le> k"
  shows "(thr s \<noteq> [] \<and>
          crashed (hd (thr (projr
            (pagerankBasicSeqRun ASYNC DEAD cs pa pr f xv xe vdeg N P EF i n fv fa (k - 1) s)))) \<longrightarrow>
          (\<exists>l s'. pagerankBasicSeqLoop ASYNC DEAD cs pa pr f xv xe vdeg N P E L EF i n fv fa s = Inr (l, s')
             \<and> 0 \<le> l \<and> l < int k
             \<and> pagerankBasicSeqRun ASYNC DEAD cs pa pr f xv xe vdeg N P EF i n fv fa (nat l) s = Inr s'))
       \<and> (threadInfosCrashedCount (thr
            (pagerankBasicOmpRun ASYNC DEAD cs pa pr f xv xe vdeg N P EF i n fv fa (k - 1) s)) > 0 \<longrightarrow>
          (\<exists>l s'. pagerankBasicOmpLoop ASYNC DEAD cs pa pr f xv xe vdeg N P E L EF i n fv fa s = (l, s')
             \<and> 0 \<le> l \<and> l < int k
             \<and> pagerankBasicOmpRun ASYNC DEAD cs pa pr f xv xe vdeg N P EF i n fv fa (nat l) s = s'))"
proof (intro conjI impI)
  let ?R = "pagerankBasicSeqRun ASYNC DEAD cs pa pr f xv xe vdeg N P EF i n fv fa"
  let ?B = "pagerankBasicSeqBody ASYNC DEAD cs pa pr f xv xe vdeg N P EF i n fv fa"
  let ?Lp = "pagerankBasicSeqLoop ASYNC DEAD cs pa pr f xv xe vdeg N P E L EF i n fv fa"
  assume "thr s \<noteq> [] \<and> crashed (hd (thr (projr (?R (k - 1) s))))"
  then have ne: "thr s \<noteq> []" and flag: "crashed (hd (thr (projr (?R (k - 1) s))))"
    by simp_all
  show "\<exists>l s'. ?Lp s = Inr (l, s') \<and> 0 \<le> l \<and> l < int k \<and> ?R (nat l) s = Inr s'"
  proof (cases "0 < L")
    case False
    then have "?Lp s = Inr (0, s)"
      unfolding pagerankBasicSeqLoop_def by (rule seq_while_exit)
    then show ?thesis using assms by simp
  next
    case True
    from seq_while_char [OF True ne, of ASYNC DEAD cs pa pr f xv xe vdeg N P E EF i n fv fa]
    obtain m s' where
      w: "?Lp s = Inr (1 + int m, s')"
      and before: "\<forall>j<m. \<exists>sj sj' elj. ?R j s = Inr sj \<and> ?B sj = Inr (sj', elj)
                     \<and> \<not> elj < E \<and> \<not> crashed (hd (thr sj'))"
      unfolding pagerankBasicSeqLoop_def by auto
    have "1 + int m < int k"
    proof (rule ccontr)
      assume "\<not> 1 + int m < int k"
      then have j: "k - 2 < m" using assms by linarith
      with before obtain sj sj' elj where
        r: "?R (k - 2) s = Inr sj" and b: "?B sj = Inr (sj', elj)"
        and nf: "\<not> crashed (hd (thr sj'))"
        by blast
      have "Suc (k - 2) = k - 1" using assms by simp
      with seq_run_last [OF r b] have "?R (k - 1) s = Inr sj'" by simp
      with flag nf show False by simp
    qed
    with seq_loop_is_run [OF w] w show ?thesis by auto
  qed
next
  let ?R = "pagerankBasicOmpRun ASYNC DEAD cs pa pr f xv xe vdeg N P EF i n fv fa"
  let ?B = "pagerankBasicOmpBody ASYNC DEAD cs pa pr f xv xe vdeg N P EF i n fv fa"
  let ?Lp = "pagerankBasicOmpLoop ASYNC DEAD cs pa pr f xv xe vdeg N P E L EF i n fv fa"
  assume flag: "threadInfosCrashedCount (thr (?R (k - 1) s)) > 0"
  show "\<exists>l s'. ?Lp s = (l, s') \<and> 0 \<le> l \<and> l < int k \<and> ?R (nat l) s = s'"
  proof (cases "0 < L")
    case False
    then have "?Lp s = (0, s)"
      unfolding pagerankBasicOmpLoop_def by (rule omp_while_exit)
    then show ?thesis using assms by simp
  next
    case True
    from omp_while_char [OF True, of ASYNC DEAD cs pa pr f xv xe vdeg N P E EF i n fv fa s]
    obtain m s' where
      w: "?Lp s = (1 + int m, s')"
      and before: "\<forall>j<m. \<exists>sj' elj. ?B (?R j s) = (sj', elj)
                     \<and> \<not> elj < E \<and> \<not> threadInfosCrashedCount (thr sj') > 0"
      unfolding pagerankBasicOmpLoop_def by auto
    have "1 + int m < int k"
    proof (rule ccontr)
      assume "\<not> 1 + int m < int k"
      then have j: "k - 2 < m" using assms by linarith
      with before obtain sj' elj where
        b: "?B (?R (k - 2) s) = (sj', elj)"
        and nf: "\<not> threadInfosCrashedCount (thr sj') > 0"
        by blast
      have "Suc (k - 2) = k - 1" using assms by simp
      with omp_run_last [OF b] have "?R (k - 1) s = sj'" by simp
      with flag nf show False by simp
    qed
    with omp_loop_is_run [OF w] w show ?thesis by auto
  qed
qed

text \<open>
  On the instance whose callback sets the flag during pass 1, the flag is set when
  pass 2 would start, and both loops return a count below 2.
\<close>

theorem flag_stops_before_pass_witness:
  "(2::nat) \<le> 2 \<and> thr (ex_state False) \<noteq> []
   \<and> crashed (hd (thr (projr (pagerankBasicSeqRun False False ex_cs 0 1 [1, 1] [0, 1, 2] [1, 0] [1, 1]
         2 (1 / 2) 1 0 2 ex_fv_crash (\<lambda>u. True) (2 - 1) (ex_state False)))))
   \<and> threadInfosCrashedCount (thr (pagerankBasicOmpRun False False ex_cs 0 1 [1, 1] [0, 1, 2] [1, 0]
         [1, 1] 2 (1 / 2) 1 0 2 ex_fv_crash (\<lambda>u. True) (2 - 1) (ex_state False))) > 0
   \<and> (\<exists>l s'. ex_seq_loop False False 5 ex_fv_crash (ex_state False) = Inr (l, s') \<and> l < 2)
   \<and> (\<exists>l s'. ex_omp_loop False False 5 ex_fv_crash (ex_state False) = (l, s') \<and> l < 2)"
proof -
  have k: "(2::nat) \<le> 2" by simp
  have ne: "thr (ex_state False) \<noteq> []" by (simp add: ex_state_def)
  have one: "(2::nat) - 1 = Suc 0" by simp
  have f1: "crashed (hd (thr (projr (pagerankBasicSeqRun False False ex_cs 0 1 [1, 1] [0, 1, 2]
         [1, 0] [1, 1] 2 (1 / 2) 1 0 2 ex_fv_crash (\<lambda>u. True) (2 - 1) (ex_state False)))))"
    by (simp add: one pagerankBasicSeqBody_def pagerankBasicSeqC0_def ex_cs_def ex_fv_crash_def
        ex_state_def Let_def upt_conv_Cons)
  have f2: "threadInfosCrashedCount (thr (pagerankBasicOmpRun False False ex_cs 0 1 [1, 1]
         [0, 1, 2] [1, 0] [1, 1] 2 (1 / 2) 1 0 2 ex_fv_crash (\<lambda>u. True) (2 - 1) (ex_state False))) > 0"
    by (simp add: one pagerankBasicOmpBody_def pagerankBasicOmpC0_def threadInfosCrashedCount_def
        ex_cs_def ex_fv_crash_def ex_state_def Let_def upt_conv_Cons)
  note inst = flag_stops_before_pass [OF k, where s = "ex_state False" and ASYNC = False
      and DEAD = False and cs = ex_cs and pa = 0 and pr = 1 and f = "[1, 1]"
      and xv = "[0, 1, 2]" and xe = "[1, 0]" and vdeg = "[1, 1]" and N = 2 and P = "1 / 2"
      and E = "1 / 10" and L = 5 and EF = 1 and i = 0 and n = 2 and fv = ex_fv_crash
      and fa = "\<lambda>u. True"]
  from inst ne f1 have
    "\<exists>l s'. ex_seq_loop False False 5 ex_fv_crash (ex_state False) = Inr (l, s') \<and> l < 2"
    unfolding ex_seq_loop_def by auto
  moreover from inst f2 have
    "\<exists>l s'. ex_omp_loop False False 5 ex_fv_crash (ex_state False) = (l, s') \<and> l < 2"
    unfolding ex_omp_loop_def by auto
  ultimately show ?thesis using k ne f1 f2 by blast
qed

subsection \<open>C7: the empty graph\<close>

text \<open>
  C7. When the graph a driver takes its order from has no vertex (\<^verbatim>\<open>xt\<close> for the
  static drivers, \<^verbatim>\<open>yt\<close> for the dynamic ones), the driver returns the empty
  result, a value and not an error. The result is the same for every
  \<^verbatim>\<open>pagerankSeq\<close>, \<^verbatim>\<open>pagerankOmp\<close> and every callee of the loops: none of them is
  reached.
\<close>

theorem empty_graph_empty_result:
  assumes "order ds g = 0"
  shows "pagerankBasicSeq ASYNC DEAD ds cs g q opts fv = Inr \<lparr>ranks = [], iterations = 0\<rparr>
       \<and> pagerankBasicOmp ASYNC DEAD ds cs g q opts fv = \<lparr>ranks = [], iterations = 0\<rparr>
       \<and> pagerankBasicDynamicTraversalSeq ASYNC DEAD ds cs x xt y g deletions insertions q opts fv
           = Inr \<lparr>ranks = [], iterations = 0\<rparr>
       \<and> pagerankBasicDynamicTraversalOmp ASYNC DEAD ds cs x xt y g deletions insertions q opts fv
           = \<lparr>ranks = [], iterations = 0\<rparr>"
  using assms
  by (simp add: pagerankBasicSeq_def pagerankBasicOmp_def pagerankBasicDynamicTraversalSeq_def
      pagerankBasicDynamicTraversalOmp_def PagerankResult_empty_def toK_def)

theorem empty_graph_empty_result_witness:
  "order ex_ds [] = 0
   \<and> pagerankBasicSeq False False ex_ds ex_cs [] None () ex_fv = Inr \<lparr>ranks = [], iterations = 0\<rparr>
   \<and> pagerankBasicDynamicTraversalOmp False False ex_ds ex_cs [1, 2] [1, 2] [] [] [(1, 2)] [] None ()
       ex_fv = \<lparr>ranks = [], iterations = 0\<rparr>"
proof -
  have z: "order ex_ds [] = 0" by (simp add: ex_ds_def)
  from empty_graph_empty_result [OF z, of False False ex_cs None "()" ex_fv "[1, 2]" "[1, 2]" "[]"
      "[(1, 2)]" "[]"] z
  show ?thesis by simp
qed

subsection \<open>C10: the pre-change transpose\<close>

text \<open>
  C10. The dynamic drivers do not use \<^verbatim>\<open>xt\<close>: two calls that differ in \<^verbatim>\<open>xt\<close> only
  return the same result (ranks and iteration count).
\<close>

theorem dynamic_result_independent_of_xt:
  "pagerankBasicDynamicTraversalSeq ASYNC DEAD ds cs x xt y yt deletions insertions q opts fv
     = pagerankBasicDynamicTraversalSeq ASYNC DEAD ds cs x xt' y yt deletions insertions q opts fv
   \<and> pagerankBasicDynamicTraversalOmp ASYNC DEAD ds cs x xt y yt deletions insertions q opts fv
     = pagerankBasicDynamicTraversalOmp ASYNC DEAD ds cs x xt' y yt deletions insertions q opts fv"
  by (simp add: pagerankBasicDynamicTraversalSeq_def pagerankBasicDynamicTraversalOmp_def)

subsection \<open>C8: the static drivers recompute every vertex\<close>




subsection \<open>C2: the affected predicate of the dynamic drivers\<close>




subsection \<open>C4: the base contribution constant\<close>

text \<open>
  C4. In every pass the constant \<^verbatim>\<open>C0\<close> handed to the rank update is \<open>(1 - P) / N\<close>
  when \<^verbatim>\<open>DEAD\<close> is off, and the teleport of the previous ranks \<^verbatim>\<open>r\<close> as they are
  when the pass starts, the out-degrees, \<^verbatim>\<open>P\<close> and \<^verbatim>\<open>N\<close> when it is on. Stated on
  what a pass leaves behind: from whatever state it starts, the ranks it leaves (in
  \<^verbatim>\<open>a\<close> when \<^verbatim>\<open>ASYNC\<close>, in \<^verbatim>\<open>r\<close> after the swap otherwise) are those the rank
  update returns for that constant; and in a run of the loop with \<open>1 \<le> L\<close> this holds
  of each of the \<open>1 + k\<close> passes made. What \<^verbatim>\<open>pagerankTeleport\<close> computes from its
  arguments is outside this header.
\<close>

theorem base_contribution_constant:
  "(thr s = t0 # ts \<longrightarrow>
      (\<exists>s1 el.
          pagerankBasicSeqBody ASYNC DEAD cs pa pr f xv xe vdeg N P EF i n fv fa s = Inr (s1, el)
        \<and> mem s1 (if ASYNC then pa else pr) =
            fst (pagerankCalculateRanks cs (mem s pa) (cbuf s) xv xe
                   (if DEAD then pagerankTeleport cs (mem s pr) vdeg P N else (1 - P) / toV cs N)
                   i n t0 fv fa)))
   \<and> (thr s \<noteq> [] \<and> 1 \<le> L \<longrightarrow>
      (\<exists>k s'.
          pagerankBasicSeqLoop ASYNC DEAD cs pa pr f xv xe vdeg N P E L EF i n fv fa s
            = Inr (1 + int k, s')
        \<and> (\<forall>j\<le>k. \<exists>sj sj' elj.
              pagerankBasicSeqRun ASYNC DEAD cs pa pr f xv xe vdeg N P EF i n fv fa j s = Inr sj
            \<and> pagerankBasicSeqBody ASYNC DEAD cs pa pr f xv xe vdeg N P EF i n fv fa sj = Inr (sj', elj)
            \<and> mem sj' (if ASYNC then pa else pr) =
                fst (pagerankCalculateRanks cs (mem sj pa) (cbuf sj) xv xe
                       (if DEAD then pagerankTeleport cs (mem sj pr) vdeg P N else (1 - P) / toV cs N)
                       i n (hd (thr sj)) fv fa))))
   \<and> (\<exists>s1 el.
          pagerankBasicOmpBody ASYNC DEAD cs pa pr f xv xe vdeg N P EF i n fv fa s = (s1, el)
        \<and> mem s1 (if ASYNC then pa else pr) =
            fst (pagerankCalculateRanksOmp cs (mem s pa) (cbuf s) xv xe
                   (if DEAD then pagerankTeleportOmp cs (mem s pr) vdeg P N else (1 - P) / toV cs N)
                   i n (thr s) fv fa))
   \<and> (1 \<le> L \<longrightarrow>
      (\<exists>k s'.
          pagerankBasicOmpLoop ASYNC DEAD cs pa pr f xv xe vdeg N P E L EF i n fv fa s = (1 + int k, s')
        \<and> (\<forall>j\<le>k. \<exists>sj sj' elj.
              pagerankBasicOmpRun ASYNC DEAD cs pa pr f xv xe vdeg N P EF i n fv fa j s = sj
            \<and> pagerankBasicOmpBody ASYNC DEAD cs pa pr f xv xe vdeg N P EF i n fv fa sj = (sj', elj)
            \<and> mem sj' (if ASYNC then pa else pr) =
                fst (pagerankCalculateRanksOmp cs (mem sj pa) (cbuf sj) xv xe
                       (if DEAD then pagerankTeleportOmp cs (mem sj pr) vdeg P N else (1 - P) / toV cs N)
                       i n (thr sj) fv fa))))"
proof (intro conjI impI)
  assume t: "thr s = t0 # ts"
  then have "thr s \<noteq> []" by simp
  from seq_body_total [OF this] obtain s1 el where
    b: "pagerankBasicSeqBody ASYNC DEAD cs pa pr f xv xe vdeg N P EF i n fv fa s = Inr (s1, el)"
    by blast
  from seq_body_new_ranks [OF b] b t
  show "\<exists>s1 el.
          pagerankBasicSeqBody ASYNC DEAD cs pa pr f xv xe vdeg N P EF i n fv fa s = Inr (s1, el)
        \<and> mem s1 (if ASYNC then pa else pr) =
            fst (pagerankCalculateRanks cs (mem s pa) (cbuf s) xv xe
                   (if DEAD then pagerankTeleport cs (mem s pr) vdeg P N else (1 - P) / toV cs N)
                   i n t0 fv fa)"
    by (simp add: pagerankBasicSeqC0_def)
next
  let ?R = "pagerankBasicSeqRun ASYNC DEAD cs pa pr f xv xe vdeg N P EF i n fv fa"
  let ?B = "pagerankBasicSeqBody ASYNC DEAD cs pa pr f xv xe vdeg N P EF i n fv fa"
  let ?new = "\<lambda>sj. fst (pagerankCalculateRanks cs (mem sj pa) (cbuf sj) xv xe
                       (if DEAD then pagerankTeleport cs (mem sj pr) vdeg P N else (1 - P) / toV cs N)
                       i n (hd (thr sj)) fv fa)"
  assume "thr s \<noteq> [] \<and> 1 \<le> L"
  then have ne: "thr s \<noteq> []" and pos: "0 < L" by simp_all
  from seq_while_char [OF pos ne, of ASYNC DEAD cs pa pr f xv xe vdeg N P E EF i n fv fa]
  obtain k sk s' el where
    w: "pagerankBasicSeqLoop ASYNC DEAD cs pa pr f xv xe vdeg N P E L EF i n fv fa s
          = Inr (1 + int k, s')"
    and run: "?R k s = Inr sk"
    and last: "?B sk = Inr (s', el)"
    and before: "\<forall>j<k. \<exists>sj sj' elj. ?R j s = Inr sj \<and> ?B sj = Inr (sj', elj)
                   \<and> \<not> elj < E \<and> \<not> crashed (hd (thr sj'))"
    unfolding pagerankBasicSeqLoop_def by auto
  have "\<forall>j\<le>k. \<exists>sj sj' elj. ?R j s = Inr sj \<and> ?B sj = Inr (sj', elj)
          \<and> mem sj' (if ASYNC then pa else pr) = ?new sj"
  proof (intro allI impI)
    fix j assume "j \<le> k"
    then consider "j < k" | "j = k" by linarith
    then obtain sj sj' elj where r: "?R j s = Inr sj" and b: "?B sj = Inr (sj', elj)"
    proof cases
      case 1
      with before that show ?thesis by blast
    next
      case 2
      with run last that show ?thesis by blast
    qed
    from seq_body_new_ranks [OF b] have "mem sj' (if ASYNC then pa else pr) = ?new sj"
      by (simp add: pagerankBasicSeqC0_def)
    with r b show "\<exists>sj sj' elj. ?R j s = Inr sj \<and> ?B sj = Inr (sj', elj)
          \<and> mem sj' (if ASYNC then pa else pr) = ?new sj"
      by blast
  qed
  with w show "\<exists>k s'.
          pagerankBasicSeqLoop ASYNC DEAD cs pa pr f xv xe vdeg N P E L EF i n fv fa s
            = Inr (1 + int k, s')
        \<and> (\<forall>j\<le>k. \<exists>sj sj' elj. ?R j s = Inr sj \<and> ?B sj = Inr (sj', elj)
              \<and> mem sj' (if ASYNC then pa else pr) = ?new sj)"
    by blast
next
  obtain s1 el where
    b: "pagerankBasicOmpBody ASYNC DEAD cs pa pr f xv xe vdeg N P EF i n fv fa s = (s1, el)"
    by (cases "pagerankBasicOmpBody ASYNC DEAD cs pa pr f xv xe vdeg N P EF i n fv fa s")
  from omp_body_new_ranks [OF b] b
  show "\<exists>s1 el.
          pagerankBasicOmpBody ASYNC DEAD cs pa pr f xv xe vdeg N P EF i n fv fa s = (s1, el)
        \<and> mem s1 (if ASYNC then pa else pr) =
            fst (pagerankCalculateRanksOmp cs (mem s pa) (cbuf s) xv xe
                   (if DEAD then pagerankTeleportOmp cs (mem s pr) vdeg P N else (1 - P) / toV cs N)
                   i n (thr s) fv fa)"
    by (simp add: pagerankBasicOmpC0_def)
next
  let ?R = "pagerankBasicOmpRun ASYNC DEAD cs pa pr f xv xe vdeg N P EF i n fv fa"
  let ?B = "pagerankBasicOmpBody ASYNC DEAD cs pa pr f xv xe vdeg N P EF i n fv fa"
  let ?new = "\<lambda>sj. fst (pagerankCalculateRanksOmp cs (mem sj pa) (cbuf sj) xv xe
                       (if DEAD then pagerankTeleportOmp cs (mem sj pr) vdeg P N else (1 - P) / toV cs N)
                       i n (thr sj) fv fa)"
  assume "1 \<le> L"
  then have pos: "0 < L" by simp
  from omp_while_char [OF pos, of ASYNC DEAD cs pa pr f xv xe vdeg N P E EF i n fv fa s]
  obtain k s' where
    w: "pagerankBasicOmpLoop ASYNC DEAD cs pa pr f xv xe vdeg N P E L EF i n fv fa s = (1 + int k, s')"
    unfolding pagerankBasicOmpLoop_def by auto
  have "\<forall>j\<le>k. \<exists>sj sj' elj. ?R j s = sj \<and> ?B sj = (sj', elj)
          \<and> mem sj' (if ASYNC then pa else pr) = ?new sj"
  proof (intro allI impI)
    fix j
    obtain sj' elj where b: "?B (?R j s) = (sj', elj)"
      by (cases "?B (?R j s)")
    from omp_body_new_ranks [OF b] have "mem sj' (if ASYNC then pa else pr) = ?new (?R j s)"
      by (simp add: pagerankBasicOmpC0_def)
    with b show "\<exists>sj sj' elj. ?R j s = sj \<and> ?B sj = (sj', elj)
          \<and> mem sj' (if ASYNC then pa else pr) = ?new sj"
      by blast
  qed
  with w show "\<exists>k s'.
          pagerankBasicOmpLoop ASYNC DEAD cs pa pr f xv xe vdeg N P E L EF i n fv fa s = (1 + int k, s')
        \<and> (\<forall>j\<le>k. \<exists>sj sj' elj. ?R j s = sj \<and> ?B sj = (sj', elj)
              \<and> mem sj' (if ASYNC then pa else pr) = ?new sj)"
    by blast
qed

text \<open>
  On the instance, with \<^verbatim>\<open>DEAD\<close> off, \<open>P = 1/2\<close> and \<open>N = 2\<close>: the pass leaves
  \<open>(1 - 1/2) / 2 = 1/4\<close> at both positions of \<^verbatim>\<open>r\<close>.
\<close>

theorem base_contribution_constant_witness:
  "thr (ex_state False) = \<lparr>crashed = False\<rparr> # []
   \<and> (\<exists>s1 el. pagerankBasicSeqBody False False ex_cs 0 1 [1, 1] [0, 1, 2] [1, 0] [1, 1] 2 (1 / 2) 1
                 0 2 ex_fv (\<lambda>u. True) (ex_state False) = Inr (s1, el)
              \<and> mem s1 1 = [1 / 4, 1 / 4])"
proof -
  have t: "thr (ex_state False) = \<lparr>crashed = False\<rparr> # []" by (simp add: ex_state_def)
  have v: "fst (pagerankCalculateRanks ex_cs (mem (ex_state False) 0) (cbuf (ex_state False))
             [0, 1, 2] [1, 0] ((1 - 1 / 2) / toV ex_cs 2) 0 2 \<lparr>crashed = False\<rparr> ex_fv (\<lambda>u. True))
           = [1 / 4, 1 / 4]"
    by (simp add: ex_cs_def ex_state_def upt_conv_Cons)
  note inst = base_contribution_constant [where s = "ex_state False" and ASYNC = False
      and DEAD = False and cs = ex_cs and pa = 0 and pr = 1 and f = "[1, 1]" and xv = "[0, 1, 2]"
      and xe = "[1, 0]" and vdeg = "[1, 1]" and N = 2 and P = "1 / 2" and E = "1 / 10" and L = 5
      and EF = 1 and i = 0 and n = 2 and fv = ex_fv and fa = "\<lambda>u. True"
      and ?t0.0 = "\<lparr>crashed = False\<rparr>" and ts = "[]"]
  from inst [THEN conjunct1] t v
  show ?thesis by auto
qed

subsection \<open>C5: the exchange of the rank buffers\<close>

text \<open>
  C5. From the same state the pass with \<^verbatim>\<open>ASYNC\<close> on writes the new ranks to \<^verbatim>\<open>a\<close>
  and exchanges nothing; the pass with \<^verbatim>\<open>ASYNC\<close> off computes the same error and
  leaves the same contributions and workers, with \<^verbatim>\<open>a\<close> and \<^verbatim>\<open>r\<close> exchanged. The
  exchange stands before both breaks, so it is made in the last pass too: with
  \<open>1 \<le> L\<close> the loop returns with the ranks of its last pass in \<^verbatim>\<open>r\<close> when \<^verbatim>\<open>ASYNC\<close>
  is off, and in \<^verbatim>\<open>a\<close> when it is on.
\<close>

theorem exchange_iff_synchronous:
  "(thr s = t0 # ts \<longrightarrow>
      (\<exists>sA sS el.
          pagerankBasicSeqBody True DEAD cs pa pr f xv xe vdeg N P EF i n fv fa s = Inr (sA, el)
        \<and> pagerankBasicSeqBody False DEAD cs pa pr f xv xe vdeg N P EF i n fv fa s = Inr (sS, el)
        \<and> mem sA = (mem s)(pa := fst (pagerankCalculateRanks cs (mem s pa) (cbuf s) xv xe
                                        (pagerankBasicSeqC0 DEAD cs (mem s pr) vdeg P N) i n t0 fv fa))
        \<and> mem sS = (mem sA)(pa := mem sA pr, pr := mem sA pa)
        \<and> cbuf sS = cbuf sA \<and> thr sS = thr sA))
   \<and> (thr s \<noteq> [] \<and> 1 \<le> L \<longrightarrow>
      (\<exists>k sk s'.
          pagerankBasicSeqLoop ASYNC DEAD cs pa pr f xv xe vdeg N P E L EF i n fv fa s
            = Inr (1 + int k, s')
        \<and> pagerankBasicSeqRun ASYNC DEAD cs pa pr f xv xe vdeg N P EF i n fv fa k s = Inr sk
        \<and> mem s' (if ASYNC then pa else pr) =
            fst (pagerankCalculateRanks cs (mem sk pa) (cbuf sk) xv xe
                   (pagerankBasicSeqC0 DEAD cs (mem sk pr) vdeg P N) i n (hd (thr sk)) fv fa)))
   \<and> (\<exists>sA sS el.
          pagerankBasicOmpBody True DEAD cs pa pr f xv xe vdeg N P EF i n fv fa s = (sA, el)
        \<and> pagerankBasicOmpBody False DEAD cs pa pr f xv xe vdeg N P EF i n fv fa s = (sS, el)
        \<and> mem sA = (mem s)(pa := fst (pagerankCalculateRanksOmp cs (mem s pa) (cbuf s) xv xe
                                        (pagerankBasicOmpC0 DEAD cs (mem s pr) vdeg P N) i n (thr s) fv fa))
        \<and> mem sS = (mem sA)(pa := mem sA pr, pr := mem sA pa)
        \<and> cbuf sS = cbuf sA \<and> thr sS = thr sA)
   \<and> (1 \<le> L \<longrightarrow>
      (\<exists>k s'.
          pagerankBasicOmpLoop ASYNC DEAD cs pa pr f xv xe vdeg N P E L EF i n fv fa s = (1 + int k, s')
        \<and> mem s' (if ASYNC then pa else pr) =
            fst (pagerankCalculateRanksOmp cs
                   (mem (pagerankBasicOmpRun ASYNC DEAD cs pa pr f xv xe vdeg N P EF i n fv fa k s) pa)
                   (cbuf (pagerankBasicOmpRun ASYNC DEAD cs pa pr f xv xe vdeg N P EF i n fv fa k s))
                   xv xe
                   (pagerankBasicOmpC0 DEAD cs
                      (mem (pagerankBasicOmpRun ASYNC DEAD cs pa pr f xv xe vdeg N P EF i n fv fa k s) pr)
                      vdeg P N)
                   i n (thr (pagerankBasicOmpRun ASYNC DEAD cs pa pr f xv xe vdeg N P EF i n fv fa k s))
                   fv fa)))"
proof (intro conjI impI)
  assume t: "thr s = t0 # ts"
  show "\<exists>sA sS el.
          pagerankBasicSeqBody True DEAD cs pa pr f xv xe vdeg N P EF i n fv fa s = Inr (sA, el)
        \<and> pagerankBasicSeqBody False DEAD cs pa pr f xv xe vdeg N P EF i n fv fa s = Inr (sS, el)
        \<and> mem sA = (mem s)(pa := fst (pagerankCalculateRanks cs (mem s pa) (cbuf s) xv xe
                                        (pagerankBasicSeqC0 DEAD cs (mem s pr) vdeg P N) i n t0 fv fa))
        \<and> mem sS = (mem sA)(pa := mem sA pr, pr := mem sA pa)
        \<and> cbuf sS = cbuf sA \<and> thr sS = thr sA"
    unfolding seq_body_eq [OF t] by (simp add: Let_def)
next
  assume "thr s \<noteq> [] \<and> 1 \<le> L"
  then have ne: "thr s \<noteq> []" and pos: "0 < L" by simp_all
  from seq_while_char [OF pos ne, of ASYNC DEAD cs pa pr f xv xe vdeg N P E EF i n fv fa]
  obtain k sk s' el where
    w: "pagerankBasicSeqLoop ASYNC DEAD cs pa pr f xv xe vdeg N P E L EF i n fv fa s
          = Inr (1 + int k, s')"
    and run: "pagerankBasicSeqRun ASYNC DEAD cs pa pr f xv xe vdeg N P EF i n fv fa k s = Inr sk"
    and last: "pagerankBasicSeqBody ASYNC DEAD cs pa pr f xv xe vdeg N P EF i n fv fa sk = Inr (s', el)"
    unfolding pagerankBasicSeqLoop_def by auto
  from seq_body_new_ranks [OF last] w run
  show "\<exists>k sk s'.
          pagerankBasicSeqLoop ASYNC DEAD cs pa pr f xv xe vdeg N P E L EF i n fv fa s
            = Inr (1 + int k, s')
        \<and> pagerankBasicSeqRun ASYNC DEAD cs pa pr f xv xe vdeg N P EF i n fv fa k s = Inr sk
        \<and> mem s' (if ASYNC then pa else pr) =
            fst (pagerankCalculateRanks cs (mem sk pa) (cbuf sk) xv xe
                   (pagerankBasicSeqC0 DEAD cs (mem sk pr) vdeg P N) i n (hd (thr sk)) fv fa)"
    by blast
next
  show "\<exists>sA sS el.
          pagerankBasicOmpBody True DEAD cs pa pr f xv xe vdeg N P EF i n fv fa s = (sA, el)
        \<and> pagerankBasicOmpBody False DEAD cs pa pr f xv xe vdeg N P EF i n fv fa s = (sS, el)
        \<and> mem sA = (mem s)(pa := fst (pagerankCalculateRanksOmp cs (mem s pa) (cbuf s) xv xe
                                        (pagerankBasicOmpC0 DEAD cs (mem s pr) vdeg P N) i n (thr s) fv fa))
        \<and> mem sS = (mem sA)(pa := mem sA pr, pr := mem sA pa)
        \<and> cbuf sS = cbuf sA \<and> thr sS = thr sA"
    unfolding omp_body_eq by (simp add: Let_def)
next
  let ?R = "pagerankBasicOmpRun ASYNC DEAD cs pa pr f xv xe vdeg N P EF i n fv fa"
  assume "1 \<le> L"
  then have pos: "0 < L" by simp
  from omp_while_char [OF pos, of ASYNC DEAD cs pa pr f xv xe vdeg N P E EF i n fv fa s]
  obtain k s' el where
    w: "pagerankBasicOmpLoop ASYNC DEAD cs pa pr f xv xe vdeg N P E L EF i n fv fa s = (1 + int k, s')"
    and last: "pagerankBasicOmpBody ASYNC DEAD cs pa pr f xv xe vdeg N P EF i n fv fa (?R k s) = (s', el)"
    unfolding pagerankBasicOmpLoop_def by auto
  from omp_body_new_ranks [OF last] w
  show "\<exists>k s'.
          pagerankBasicOmpLoop ASYNC DEAD cs pa pr f xv xe vdeg N P E L EF i n fv fa s = (1 + int k, s')
        \<and> mem s' (if ASYNC then pa else pr) =
            fst (pagerankCalculateRanksOmp cs (mem (?R k s) pa) (cbuf (?R k s)) xv xe
                   (pagerankBasicOmpC0 DEAD cs (mem (?R k s) pr) vdeg P N)
                   i n (thr (?R k s)) fv fa)"
    by blast
qed

text \<open>
  On the instance, \<^verbatim>\<open>a\<close> at address 0 and \<^verbatim>\<open>r\<close> at address 1: after the pass with
  \<^verbatim>\<open>ASYNC\<close> on the new ranks are at 0 and \<^verbatim>\<open>r\<close> is as before; after the pass with
  \<^verbatim>\<open>ASYNC\<close> off the new ranks are at 1 and the former \<^verbatim>\<open>r\<close> is at 0.
\<close>

theorem exchange_iff_synchronous_witness:
  "thr (ex_state False) = \<lparr>crashed = False\<rparr> # [] \<and> (1::int) \<le> 5
   \<and> (\<exists>sA sS el.
          pagerankBasicSeqBody True False ex_cs 0 1 [1, 1] [0, 1, 2] [1, 0] [1, 1] 2 (1 / 2) 1
            0 2 ex_fv (\<lambda>u. True) (ex_state False) = Inr (sA, el)
        \<and> pagerankBasicSeqBody False False ex_cs 0 1 [1, 1] [0, 1, 2] [1, 0] [1, 1] 2 (1 / 2) 1
            0 2 ex_fv (\<lambda>u. True) (ex_state False) = Inr (sS, el)
        \<and> mem sA 0 = [1 / 4, 1 / 4] \<and> mem sA 1 = [1 / 2, 1 / 2]
        \<and> mem sS 0 = [1 / 2, 1 / 2] \<and> mem sS 1 = [1 / 4, 1 / 4])"
proof -
  have t: "thr (ex_state False) = \<lparr>crashed = False\<rparr> # []" by (simp add: ex_state_def)
  have v: "fst (pagerankCalculateRanks ex_cs (mem (ex_state False) 0) (cbuf (ex_state False))
             [0, 1, 2] [1, 0] (pagerankBasicSeqC0 False ex_cs (mem (ex_state False) 1) [1, 1] (1 / 2) 2)
             0 2 \<lparr>crashed = False\<rparr> ex_fv (\<lambda>u. True))
           = [1 / 4, 1 / 4]"
    by (simp add: pagerankBasicSeqC0_def ex_cs_def ex_state_def upt_conv_Cons)
  have m: "mem (ex_state False) 1 = [1 / 2, 1 / 2]" by (simp add: ex_state_def)
  from exchange_iff_synchronous [where s = "ex_state False" and ASYNC = False and DEAD = False
      and cs = ex_cs and pa = 0 and pr = 1 and f = "[1, 1]" and xv = "[0, 1, 2]" and xe = "[1, 0]"
      and vdeg = "[1, 1]" and N = 2 and P = "1 / 2" and E = "1 / 10" and L = 5 and EF = 1 and i = 0
      and n = 2 and fv = ex_fv and fa = "\<lambda>u. True" and ?t0.0 = "\<lparr>crashed = False\<rparr>" and ts = "[]"]
  have "\<exists>sA sS el.
          pagerankBasicSeqBody True False ex_cs 0 1 [1, 1] [0, 1, 2] [1, 0] [1, 1] 2 (1 / 2) 1
            0 2 ex_fv (\<lambda>u. True) (ex_state False) = Inr (sA, el)
        \<and> pagerankBasicSeqBody False False ex_cs 0 1 [1, 1] [0, 1, 2] [1, 0] [1, 1] 2 (1 / 2) 1
            0 2 ex_fv (\<lambda>u. True) (ex_state False) = Inr (sS, el)
        \<and> mem sA = (mem (ex_state False))(0 := [1 / 4, 1 / 4])
        \<and> mem sS = (mem sA)(0 := mem sA 1, 1 := mem sA 0)"
    using t v by auto
  then obtain sA sS el where
    "pagerankBasicSeqBody True False ex_cs 0 1 [1, 1] [0, 1, 2] [1, 0] [1, 1] 2 (1 / 2) 1
       0 2 ex_fv (\<lambda>u. True) (ex_state False) = Inr (sA, el)"
    "pagerankBasicSeqBody False False ex_cs 0 1 [1, 1] [0, 1, 2] [1, 0] [1, 1] 2 (1 / 2) 1
       0 2 ex_fv (\<lambda>u. True) (ex_state False) = Inr (sS, el)"
    "mem sA = (mem (ex_state False))(0 := [1 / 4, 1 / 4])"
    "mem sS = (mem sA)(0 := mem sA 1, 1 := mem sA 0)"
    by blast
  moreover from this m have "mem sA 0 = [1 / 4, 1 / 4]" "mem sA 1 = [1 / 2, 1 / 2]"
    "mem sS 0 = [1 / 2, 1 / 2]" "mem sS 1 = [1 / 4, 1 / 4]"
    by simp_all
  moreover have "(1::int) \<le> 5" by simp
  ultimately show ?thesis using t by blast
qed

subsection \<open>C6: a start that already meets the tolerance\<close>

text \<open>
  C6. On the code: when the error the first pass computes (between the ranks that
  pass produces and the ranks \<^verbatim>\<open>r\<close> it started from) is below the tolerance, the
  loop returns after that pass, with a count of at most 1. For the static drivers the
  range is \<open>0\<close>, \<open>N\<close> with \<open>N\<close> the order converted to the key type, and the run
  around the loop is \<^verbatim>\<open>pagerankSeq\<close> or \<^verbatim>\<open>pagerankOmp\<close>, modelled from the
  specification: on a graph with a vertex, when the first pass on the buffers the run
  prepares from the initial ranks finds the error below the tolerance of the run, the
  driver returns a result with at most 1 iteration.
\<close>

theorem converged_start_one_iteration:
  assumes "order ds xt \<noteq> 0"
    and "args = prepare rc ASYNC xt q opts (vertexKeys ds xt)"
  shows "(thr s \<noteq> [] \<and>
          snd (projr (pagerankBasicSeqBody ASYNC DEAD cs pa pr f xv xe vdeg N P EF i n fv fa s)) < E \<longrightarrow>
          (\<exists>l s'. pagerankBasicSeqLoop ASYNC DEAD cs pa pr f xv xe vdeg N P E L EF i n fv fa s = Inr (l, s')
             \<and> 0 \<le> l \<and> l \<le> 1))
       \<and> (snd (pagerankBasicOmpBody ASYNC DEAD cs pa pr f xv xe vdeg N P EF i n fv fa s) < E \<longrightarrow>
          0 \<le> fst (pagerankBasicOmpLoop ASYNC DEAD cs pa pr f xv xe vdeg N P E L EF i n fv fa s)
          \<and> fst (pagerankBasicOmpLoop ASYNC DEAD cs pa pr f xv xe vdeg N P E L EF i n fv fa s) \<le> 1)
       \<and> (pagerankSeq ds = pagerankSeqSpec rc \<and>
          snd (projr (pagerankBasicSeqBody ASYNC DEAD cs (arg_a args) (arg_r args) (arg_f args)
                 (arg_xv args) (arg_xe args) (arg_vdeg args) (arg_N args) (arg_P args) (arg_EF args)
                 0 (toK (keyBits ds) (order ds xt)) fv (\<lambda>u. True)
                 \<lparr>mem = arg_mem args, cbuf = arg_c args, thr = [worker rc]\<rparr>)) < arg_E args \<longrightarrow>
          (\<exists>res. pagerankBasicSeq ASYNC DEAD ds cs xt q opts fv = Inr res
             \<and> 0 \<le> iterations res \<and> iterations res \<le> 1))
       \<and> (pagerankOmp ds = pagerankOmpSpec rc \<and>
          snd (pagerankBasicOmpBody ASYNC DEAD cs (arg_a args) (arg_r args) (arg_f args)
                 (arg_xv args) (arg_xe args) (arg_vdeg args) (arg_N args) (arg_P args) (arg_EF args)
                 0 (toK (keyBits ds) (order ds xt)) fv (\<lambda>u. True)
                 \<lparr>mem = arg_mem args, cbuf = arg_c args, thr = workers rc\<rparr>) < arg_E args \<longrightarrow>
          0 \<le> iterations (pagerankBasicOmp ASYNC DEAD ds cs xt q opts fv)
          \<and> iterations (pagerankBasicOmp ASYNC DEAD ds cs xt q opts fv) \<le> 1)"
proof (intro conjI impI)
  assume "thr s \<noteq> [] \<and>
          snd (projr (pagerankBasicSeqBody ASYNC DEAD cs pa pr f xv xe vdeg N P EF i n fv fa s)) < E"
  then have ne: "thr s \<noteq> []"
    and lt: "snd (projr (pagerankBasicSeqBody ASYNC DEAD cs pa pr f xv xe vdeg N P EF i n fv fa s)) < E"
    by simp_all
  from seq_body_total [OF ne] obtain s1 el where
    b: "pagerankBasicSeqBody ASYNC DEAD cs pa pr f xv xe vdeg N P EF i n fv fa s = Inr (s1, el)"
    by blast
  with lt have "el < E" by simp
  from seq_first_pass_converged [OF b this, of L]
  show "\<exists>l s'. pagerankBasicSeqLoop ASYNC DEAD cs pa pr f xv xe vdeg N P E L EF i n fv fa s = Inr (l, s')
          \<and> 0 \<le> l \<and> l \<le> 1"
    by (cases "0 < L") simp_all
next
  assume lt: "snd (pagerankBasicOmpBody ASYNC DEAD cs pa pr f xv xe vdeg N P EF i n fv fa s) < E"
  obtain s1 el where
    b: "pagerankBasicOmpBody ASYNC DEAD cs pa pr f xv xe vdeg N P EF i n fv fa s = (s1, el)"
    by (cases "pagerankBasicOmpBody ASYNC DEAD cs pa pr f xv xe vdeg N P EF i n fv fa s")
  with lt have "el < E" by simp
  from omp_first_pass_converged [OF b this, of L]
  show "0 \<le> fst (pagerankBasicOmpLoop ASYNC DEAD cs pa pr f xv xe vdeg N P E L EF i n fv fa s)"
    and "fst (pagerankBasicOmpLoop ASYNC DEAD cs pa pr f xv xe vdeg N P E L EF i n fv fa s) \<le> 1"
    by (cases "0 < L"; simp)+
next
  let ?s0 = "\<lparr>mem = arg_mem args, cbuf = arg_c args, thr = [worker rc]\<rparr>"
  let ?B = "pagerankBasicSeqBody ASYNC DEAD cs (arg_a args) (arg_r args) (arg_f args)
              (arg_xv args) (arg_xe args) (arg_vdeg args) (arg_N args) (arg_P args) (arg_EF args)
              0 (toK (keyBits ds) (order ds xt)) fv (\<lambda>u. True)"
  assume "pagerankSeq ds = pagerankSeqSpec rc \<and> snd (projr (?B ?s0)) < arg_E args"
  then have spec: "pagerankSeq ds = pagerankSeqSpec rc"
    and lt: "snd (projr (?B ?s0)) < arg_E args"
    by simp_all
  have "thr ?s0 \<noteq> []" by simp
  from seq_body_total [OF this] obtain s1 el where b: "?B ?s0 = Inr (s1, el)"
    by blast
  with lt have "el < arg_E args" by simp
  from seq_first_pass_converged [OF b this, of "arg_L args"] assms spec
  show "\<exists>res. pagerankBasicSeq ASYNC DEAD ds cs xt q opts fv = Inr res
          \<and> 0 \<le> iterations res \<and> iterations res \<le> 1"
    by (cases "0 < arg_L args")
      (simp_all add: pagerankBasicSeq_def pagerankSeqSpec_def PagerankResult_empty_def Let_def)
next
  let ?s0 = "\<lparr>mem = arg_mem args, cbuf = arg_c args, thr = workers rc\<rparr>"
  let ?B = "pagerankBasicOmpBody ASYNC DEAD cs (arg_a args) (arg_r args) (arg_f args)
              (arg_xv args) (arg_xe args) (arg_vdeg args) (arg_N args) (arg_P args) (arg_EF args)
              0 (toK (keyBits ds) (order ds xt)) fv (\<lambda>u. True)"
  assume "pagerankOmp ds = pagerankOmpSpec rc \<and> snd (?B ?s0) < arg_E args"
  then have spec: "pagerankOmp ds = pagerankOmpSpec rc"
    and lt: "snd (?B ?s0) < arg_E args"
    by simp_all
  obtain s1 el where b: "?B ?s0 = (s1, el)"
    by (cases "?B ?s0")
  with lt have "el < arg_E args" by simp
  from omp_first_pass_converged [OF b this, of "arg_L args"] assms spec
  show "0 \<le> iterations (pagerankBasicOmp ASYNC DEAD ds cs xt q opts fv)"
    and "iterations (pagerankBasicOmp ASYNC DEAD ds cs xt q opts fv) \<le> 1"
    by (cases "0 < arg_L args";
        simp add: pagerankBasicOmp_def pagerankOmpSpec_def PagerankResult_empty_def Let_def)+
qed

text \<open>
  The instance started from the ranks \<open>[1/4, 1/4]\<close>, which one update reproduces:
  the static driver returns them after 1 iteration.
\<close>

theorem converged_start_one_iteration_witness:
  "order ex_ds [7, 8] \<noteq> 0 \<and> pagerankSeq ex_ds = pagerankSeqSpec ex_rc
   \<and> snd (projr (pagerankBasicSeqBody False False ex_cs 0 1 [1, 1] [] [] [1, 1] 2 (1 / 2) 1
              0 2 ex_fv (\<lambda>u. True)
              \<lparr>mem = (\<lambda>p. [1 / 4, 1 / 4]), cbuf = [0, 0], thr = [\<lparr>crashed = False\<rparr>]\<rparr>)) < 1 / 10
   \<and> (\<exists>res. pagerankBasicSeq False False ex_ds ex_cs [7, 8] (Some [1 / 4, 1 / 4]) () ex_fv = Inr res
         \<and> iterations res \<le> 1)"
proof -
  have nz: "order ex_ds [7, 8] \<noteq> 0" by (simp add: ex_ds_def)
  have spec: "pagerankSeq ex_ds = pagerankSeqSpec ex_rc" by (simp add: ex_ds_def)
  have el: "snd (projr (pagerankBasicSeqBody False False ex_cs 0 1 [1, 1] [] [] [1, 1] 2 (1 / 2) 1
              0 2 ex_fv (\<lambda>u. True)
              \<lparr>mem = (\<lambda>p. [1 / 4, 1 / 4]), cbuf = [0, 0], thr = [\<lparr>crashed = False\<rparr>]\<rparr>)) < 1 / 10"
    by (simp add: pagerankBasicSeqBody_def pagerankBasicSeqC0_def ex_cs_def ex_fv_def Let_def
        upt_conv_Cons)
  have a: "prepare ex_rc False [7, 8] (Some [1 / 4, 1 / 4]) () (vertexKeys ex_ds [7, 8]) =
      \<lparr>arg_a = 0, arg_r = 1, arg_mem = (\<lambda>p. [1 / 4, 1 / 4]), arg_c = [0, 0], arg_f = [1, 1],
       arg_xv = [], arg_xe = [], arg_vdeg = [1, 1], arg_N = 2, arg_P = 1 / 2, arg_E = 1 / 10,
       arg_L = 5, arg_EF = 1\<rparr>"
    by (simp add: ex_rc_def ex_ds_def)
  have w: "worker ex_rc = \<lparr>crashed = False\<rparr>"
    and o: "toK (keyBits ex_ds) (order ex_ds [7, 8]) = 2"
    by (simp_all add: ex_rc_def ex_ds_def toK_def)
  note inst = converged_start_one_iteration [OF nz a [symmetric], where cs = ex_cs
      and DEAD = False and fv = ex_fv and s = "ex_state False" and pa = 0 and pr = 1 and f = "[]"
      and xv = "[]" and xe = "[]" and vdeg = "[]" and N = 2 and P = "1 / 2" and E = "1 / 10"
      and L = 5 and EF = 1 and i = 0 and n = 2 and fa = "\<lambda>u. True"]
  from inst [THEN conjunct2, THEN conjunct2, THEN conjunct1] spec el
  have "\<exists>res. pagerankBasicSeq False False ex_ds ex_cs [7, 8] (Some [1 / 4, 1 / 4]) () ex_fv = Inr res
         \<and> iterations res \<le> 1"
    by (auto simp: w o)
  with nz spec el show ?thesis by blast
qed

end
